theory Spec2Isabelle
  imports Complex_Main
begin

section \<open>Numbers and the math library\<close>

text \<open>
  The simulation computes with Python floats. They are modelled as real numbers. Sums,
  differences, products and the functions of the math library are taken exactly. The
  rounding of a double is modelled where it moves a result onto a bound that the exact
  value stays below: in the remainder \<^verbatim>\<open>%\<close>, in \<^verbatim>\<open>random.uniform\<close>, and in the conversion
  of a float to an integer coordinate. The integer constants of the source are integers.
\<close>

definition SCREEN_WIDTH :: int where "SCREEN_WIDTH = 800"
definition SCREEN_HEIGHT :: int where "SCREEN_HEIGHT = 600"

definition TOTAL_ANTS :: int where "TOTAL_ANTS = 40"
definition WORKER_RATIO :: real where "WORKER_RATIO = 8 / 10"
definition ANT_SPEED :: real where "ANT_SPEED = 15 / 10"
definition ANT_TURN_SPEED :: real where "ANT_TURN_SPEED = 5"

definition FOOD_PILES :: int where "FOOD_PILES = 12"
definition FOOD_AMOUNT_PER_PILE :: int where "FOOD_AMOUNT_PER_PILE = 80"

definition PHEROMONE_STRENGTH :: int where "PHEROMONE_STRENGTH = 255"
definition PHEROMONE_DROP_RATE :: int where "PHEROMONE_DROP_RATE = 10"

definition STATE_SEEKING_FOOD :: int where "STATE_SEEKING_FOOD = 0"
definition STATE_RETURNING_TO_NEST :: int where "STATE_RETURNING_TO_NEST = 1"
definition STATE_WANDERING :: int where "STATE_WANDERING = 2"

text \<open>
  A double has 53 significant bits. \<open>fl64 v\<close> is the double nearest to \<open>v\<close>, a tie going to
  the even neighbour, as the float operations round their results; overflow and the
  subnormal numbers do not occur at the magnitudes of this program and are left out.
\<close>

definition round_even :: "real \<Rightarrow> int" where
  "round_even r =
     (let f = \<lfloor>r\<rfloor>; d = r - real_of_int f
      in if d < 1 / 2 then f else if 1 / 2 < d then f + 1 else if even f then f else f + 1)"

definition fl64_pos :: "real \<Rightarrow> real" where
  "fl64_pos v =
     (let q = 2 powr real_of_int (\<lfloor>log 2 v\<rfloor> - 52)
      in q * real_of_int (round_even (v / q)))"

definition fl64 :: "real \<Rightarrow> real" where
  "fl64 v = (if v = 0 then 0 else if v < 0 then - fl64_pos (- v) else fl64_pos v)"

text \<open>
  Python's \<^verbatim>\<open>a % m\<close> on floats. The interpreter takes C's \<^verbatim>\<open>fmod\<close>, which is exact and has
  the sign of \<open>a\<close>, and adds \<open>m\<close> when the signs of the remainder and of \<open>m\<close> differ; this
  sum is rounded. So \<^verbatim>\<open>a % 360\<close> is \<open>360.0\<close> itself for a negative \<open>a\<close> close enough to 0.
\<close>

definition c_trunc :: "real \<Rightarrow> int" where
  "c_trunc v = (if 0 \<le> v then \<lfloor>v\<rfloor> else \<lceil>v\<rceil>)"

definition c_fmod :: "real \<Rightarrow> real \<Rightarrow> real" where
  "c_fmod a m = a - m * real_of_int (c_trunc (a / m))"

definition py_mod :: "real \<Rightarrow> real \<Rightarrow> real" where
  "py_mod a m =
     (let r = c_fmod a m
      in if r \<noteq> 0 then (if (m < 0) \<noteq> (r < 0) then fl64 (r + m) else r) else 0)"

text \<open>\<^verbatim>\<open>math.radians\<close>, \<^verbatim>\<open>math.degrees\<close>, \<^verbatim>\<open>math.hypot\<close> and \<^verbatim>\<open>math.atan2\<close>.\<close>

definition radians :: "real \<Rightarrow> real" where
  "radians d = d * pi / 180"

definition degrees :: "real \<Rightarrow> real" where
  "degrees r = r * 180 / pi"

definition hypot :: "real \<Rightarrow> real \<Rightarrow> real" where
  "hypot a b = sqrt (a * a + b * b)"

definition atan2 :: "real \<Rightarrow> real \<Rightarrow> real" where
  "atan2 dy dx =
     (if 0 < dx then arctan (dy / dx)
      else if dx < 0 \<and> 0 \<le> dy then arctan (dy / dx) + pi
      else if dx < 0 then arctan (dy / dx) - pi
      else if 0 < dy then pi / 2
      else if dy < 0 then - (pi / 2)
      else 0)"

text \<open>
  \<^verbatim>\<open>random.uniform(a, b)\<close> is \<^verbatim>\<open>a + (b - a) * random()\<close>, where \<^verbatim>\<open>random()\<close> draws a
  double from \<open>[0, 1)\<close>; each of the three operations rounds, so the result can be \<open>b\<close>
  itself. The random source is not modelled: every function that draws takes the value
  \<open>u\<close> of \<^verbatim>\<open>random()\<close> as an argument.
\<close>

definition uniform :: "real \<Rightarrow> real \<Rightarrow> real \<Rightarrow> real" where
  "uniform a b u = fl64 (a + fl64 (fl64 (b - a) * u))"

text \<open>The conversion of a float to an integer coordinate when pygame stores it in a Rect:
  to the nearest integer, a half going away from zero.\<close>

definition py_int :: "real \<Rightarrow> int" where
  "py_int v = (if 0 \<le> v then \<lfloor>v + 1 / 2\<rfloor> else \<lceil>v - 1 / 2\<rceil>)"

definition get_angle_to :: "int \<times> int \<Rightarrow> int \<times> int \<Rightarrow> real" where
  "get_angle_to p1 p2 =
     (let dx = fst p2 - fst p1; dy = snd p2 - snd p1
      in degrees (atan2 (real_of_int dy) (real_of_int dx)))"

section \<open>Sprites and rectangles\<close>

text \<open>
  A \<^verbatim>\<open>pygame.Rect\<close> has integer coordinates. Its centre is \<open>(x + w div 2, y + h div 2)\<close>;
  assigning the centre moves the rectangle; two rectangles collide when their interiors
  overlap, and a rectangle of width or height 0 collides with nothing.
\<close>

record rect =
  rect_x :: int
  rect_y :: int
  rect_w :: int
  rect_h :: int

definition centerx :: "rect \<Rightarrow> int" where
  "centerx r = rect_x r + rect_w r div 2"

definition centery :: "rect \<Rightarrow> int" where
  "centery r = rect_y r + rect_h r div 2"

definition center :: "rect \<Rightarrow> int \<times> int" where
  "center r = (centerx r, centery r)"

definition set_center :: "rect \<Rightarrow> int \<times> int \<Rightarrow> rect" where
  "set_center r c = r\<lparr>rect_x := fst c - rect_w r div 2, rect_y := snd c - rect_h r div 2\<rparr>"

definition colliderect :: "rect \<Rightarrow> rect \<Rightarrow> bool" where
  "colliderect a b =
     (rect_w a \<noteq> 0 \<and> rect_h a \<noteq> 0 \<and> rect_w b \<noteq> 0 \<and> rect_h b \<noteq> 0 \<and>
      min (rect_x a) (rect_x a + rect_w a) < max (rect_x b) (rect_x b + rect_w b) \<and>
      min (rect_y a) (rect_y a + rect_h a) < max (rect_y b) (rect_y b + rect_h b) \<and>
      max (rect_x a) (rect_x a + rect_w a) > min (rect_x b) (rect_x b + rect_w b) \<and>
      max (rect_y a) (rect_y a + rect_h a) > min (rect_y b) (rect_y b + rect_h b))"

text \<open>\<^verbatim>\<open>Surface((w, h)).get_rect(center=c)\<close> and \<^verbatim>\<open>get_rect(topleft=p)\<close>.\<close>

definition get_rect_center :: "int \<Rightarrow> int \<Rightarrow> int \<times> int \<Rightarrow> rect" where
  "get_rect_center w h c = set_center \<lparr>rect_x = 0, rect_y = 0, rect_w = w, rect_h = h\<rparr> c"

definition get_rect_topleft :: "int \<Rightarrow> int \<Rightarrow> int \<times> int \<Rightarrow> rect" where
  "get_rect_topleft w h p = \<lparr>rect_x = fst p, rect_y = snd p, rect_w = w, rect_h = h\<rparr>"

text \<open>
  Every entity is a \<^verbatim>\<open>pygame.sprite.Sprite\<close> with a \<open>rect\<close>; the classes of the source
  extend it. The \<open>image\<close> of a sprite (its colour and transparency) is drawing only and is
  left out. A sprite group is the list of its members in insertion order, which is the
  order in which a group is iterated; \<^verbatim>\<open>kill()\<close> removes a sprite from the list.
\<close>

record sprite =
  rect :: rect

definition spritecollide :: "'a sprite_scheme \<Rightarrow> 'b sprite_scheme list \<Rightarrow> 'b sprite_scheme list" where
  "spritecollide s gs = filter (\<lambda>g. colliderect (rect s) (rect g)) gs"

section \<open>Pheromones, food, obstacles\<close>

record pheromone = sprite +
  strength :: int

definition Pheromone :: "real \<Rightarrow> real \<Rightarrow> pheromone" where
  "Pheromone px py =
     \<lparr>rect = get_rect_center 3 3 (py_int px, py_int py), strength = PHEROMONE_STRENGTH\<rparr>"

text \<open>\<^verbatim>\<open>Pheromone.update\<close>: \<open>None\<close> when the marker kills itself.\<close>

definition pheromone_update :: "pheromone \<Rightarrow> pheromone option" where
  "pheromone_update p =
     (let p' = p\<lparr>strength := strength p - 1\<rparr>
      in if strength p' \<le> 0 then None else Some p')"

text \<open>\<^verbatim>\<open>pheromone_group.update()\<close>: every marker is updated once, the killed ones leave.\<close>

fun pheromone_group_update :: "pheromone list \<Rightarrow> pheromone list" where
  "pheromone_group_update [] = []"
| "pheromone_group_update (p # ps) =
     (case pheromone_update p of
        None \<Rightarrow> pheromone_group_update ps
      | Some p' \<Rightarrow> p' # pheromone_group_update ps)"

record food = sprite +
  amount :: int

text \<open>
  The constructor reads the module constant \<^verbatim>\<open>FOOD_AMOUNT_PER_PILE\<close>. It is an argument
  here, so that the set-up of \<^verbatim>\<open>main\<close> can be studied for other values of the constants.
\<close>

definition Food :: "int \<Rightarrow> int \<Rightarrow> int \<Rightarrow> food" where
  "Food per_pile fx fy = \<lparr>rect = get_rect_center 12 12 (fx, fy), amount = per_pile\<rparr>"

text \<open>\<^verbatim>\<open>Food.take_chunk\<close>: \<open>None\<close> when the pile kills itself.\<close>

definition take_chunk :: "food \<Rightarrow> food option" where
  "take_chunk f =
     (let f' = f\<lparr>amount := amount f - 1\<rparr>
      in if amount f' \<le> 0 then None else Some f')"

type_synonym obstacle = sprite

definition Obstacle :: "int \<Rightarrow> int \<Rightarrow> int \<Rightarrow> int \<Rightarrow> obstacle" where
  "Obstacle ox oy w h = \<lparr>rect = get_rect_topleft w h (ox, oy)\<rparr>"

section \<open>The base ant\<close>

record ant = sprite +
  x :: real
  y :: real
  speed :: real
  direction :: real
  turn_speed :: real

text \<open>\<^verbatim>\<open>Ant.steer\<close>.\<close>

definition steer :: "real \<Rightarrow> 'a ant_scheme \<Rightarrow> 'a ant_scheme" where
  "steer target_angle a =
     (let diff = py_mod (target_angle - direction a + 180) 360 - 180;
          d = (if \<bar>diff\<bar> < turn_speed a then target_angle
               else if diff > 0 then direction a + turn_speed a
               else direction a - turn_speed a)
      in a\<lparr>direction := py_mod d 360\<rparr>)"

text \<open>A name for the heading that \<open>steer\<close> has reached before its last line, the \<^verbatim>\<open>% 360\<close>.\<close>

definition turned_heading :: "real \<Rightarrow> 'a ant_scheme \<Rightarrow> real" where
  "turned_heading target_angle a =
     (let diff = py_mod (target_angle - direction a + 180) 360 - 180
      in if \<bar>diff\<bar> < turn_speed a then target_angle
         else if diff > 0 then direction a + turn_speed a
         else direction a - turn_speed a)"

text \<open>
  \<^verbatim>\<open>Ant.move\<close>, in its three stages: the advance along the heading, the bounce at the screen
  boundary, and the response to an obstacle. \<open>u\<close> is the value of \<^verbatim>\<open>random()\<close> behind
  \<^verbatim>\<open>random.uniform(90, 270)\<close>; it is drawn only when an obstacle is hit.
\<close>

definition advance :: "'a ant_scheme \<Rightarrow> 'a ant_scheme" where
  "advance a =
     (let rad = radians (direction a);
          a1 = a\<lparr>x := x a + cos rad * speed a\<rparr>;
          a2 = a1\<lparr>y := y a1 + sin rad * speed a1\<rparr>
      in a2\<lparr>rect := set_center (rect a2) (py_int (x a2), py_int (y a2))\<rparr>)"

definition boundary_check :: "real \<Rightarrow> real \<Rightarrow> 'a ant_scheme \<Rightarrow> 'a ant_scheme" where
  "boundary_check old_x old_y a =
     (let a1 = (if x a \<le> 0 \<or> x a \<ge> real_of_int SCREEN_WIDTH
                then a\<lparr>direction := 180 - direction a, x := old_x\<rparr> else a);
          a2 = (if y a1 \<le> 0 \<or> y a1 \<ge> real_of_int SCREEN_HEIGHT
                then a1\<lparr>direction := - direction a1, y := old_y\<rparr> else a1)
      in a2\<lparr>rect := set_center (rect a2) (py_int (x a2), py_int (y a2))\<rparr>)"

definition obstacle_check ::
  "real \<Rightarrow> real \<Rightarrow> real \<Rightarrow> obstacle list \<Rightarrow> 'a ant_scheme \<Rightarrow> 'a ant_scheme" where
  "obstacle_check old_x old_y u obstacle_group a =
     (if spritecollide a obstacle_group \<noteq> [] then
        (let a1 = a\<lparr>x := old_x, y := old_y\<rparr>;
             a2 = a1\<lparr>direction := direction a1 + uniform 90 270 u\<rparr>
         in a2\<lparr>rect := set_center (rect a2) (py_int (x a2), py_int (y a2))\<rparr>)
      else a)"

definition move :: "real \<Rightarrow> obstacle list \<Rightarrow> 'a ant_scheme \<Rightarrow> 'a ant_scheme" where
  "move u obstacle_group a =
     (let old_x = x a; old_y = y a
      in obstacle_check old_x old_y u obstacle_group (boundary_check old_x old_y (advance a)))"

text \<open>
  Names for the stages of \<open>move\<close>: the ant after the advance and the boundary check, and
  whether the advanced position violates the screen boundary on an axis.
\<close>

definition bounces_x :: "'a ant_scheme \<Rightarrow> bool" where
  "bounces_x a \<longleftrightarrow> x (advance a) \<le> 0 \<or> x (advance a) \<ge> real_of_int SCREEN_WIDTH"

definition bounces_y :: "'a ant_scheme \<Rightarrow> bool" where
  "bounces_y a \<longleftrightarrow> y (advance a) \<le> 0 \<or> y (advance a) \<ge> real_of_int SCREEN_HEIGHT"

definition after_boundary :: "'a ant_scheme \<Rightarrow> 'a ant_scheme" where
  "after_boundary a = boundary_check (x a) (y a) (advance a)"

text \<open>
  The last lines of \<^verbatim>\<open>WorkerAnt.update\<close> before the move: steer towards the target if
  there is one (a position tuple is always true in Python), wander otherwise. \<open>u\<close> is the
  value of \<^verbatim>\<open>random()\<close> behind \<^verbatim>\<open>random.uniform(-turn_speed, turn_speed)\<close>.
\<close>

definition wander :: "real \<Rightarrow> 'a ant_scheme \<Rightarrow> 'a ant_scheme" where
  "wander u a = a\<lparr>direction := direction a + uniform (- turn_speed a) (turn_speed a) u\<rparr>"

definition steer_or_wander :: "(int \<times> int) option \<Rightarrow> real \<Rightarrow> 'a ant_scheme \<Rightarrow> 'a ant_scheme" where
  "steer_or_wander target u a =
     (case target of
        Some t \<Rightarrow> steer (get_angle_to (center (rect a)) t) a
      | None \<Rightarrow> wander u a)"

text \<open>The two values of \<^verbatim>\<open>random()\<close> that one update of one ant may consume.\<close>

record draws =
  wander_u :: real
  deflect_u :: real

section \<open>Worker ants\<close>

record worker_ant = ant +
  nest_rect :: rect
  state :: int
  pheromone_cooldown :: int

text \<open>The constructors; \<open>u\<close> is the value of \<^verbatim>\<open>random()\<close> behind \<^verbatim>\<open>random.uniform(0, 360)\<close>.\<close>

definition WorkerAnt :: "int \<Rightarrow> int \<Rightarrow> rect \<Rightarrow> real \<Rightarrow> worker_ant" where
  "WorkerAnt ix iy nest u =
     \<lparr>rect = get_rect_center 5 5 (ix, iy),
      x = real_of_int ix, y = real_of_int iy,
      speed = ANT_SPEED, direction = uniform 0 360 u, turn_speed = ANT_TURN_SPEED,
      nest_rect = nest, state = STATE_SEEKING_FOOD, pheromone_cooldown = 0\<rparr>"

text \<open>\<^verbatim>\<open>WorkerAnt.drop_pheromone\<close>; the group of all sprites is for drawing only.\<close>

definition drop_pheromone :: "pheromone list \<Rightarrow> worker_ant \<Rightarrow> worker_ant \<times> pheromone list" where
  "drop_pheromone pheromone_group a =
     (if pheromone_cooldown a \<le> 0 then
        (a\<lparr>pheromone_cooldown := PHEROMONE_DROP_RATE\<rparr>, pheromone_group @ [Pheromone (x a) (y a)])
      else (a\<lparr>pheromone_cooldown := pheromone_cooldown a - 1\<rparr>, pheromone_group))"

text \<open>The distance from the point \<open>(ax, ay)\<close> to the centre of a sprite's rectangle.\<close>

definition dist_to :: "real \<Rightarrow> real \<Rightarrow> 'a sprite_scheme \<Rightarrow> real" where
  "dist_to ax ay s =
     hypot (real_of_int (centerx (rect s)) - ax) (real_of_int (centery (rect s)) - ay)"

text \<open>The loop over the pheromone group, left at the first marker closer than 50.\<close>

fun first_smelled :: "real \<Rightarrow> real \<Rightarrow> pheromone list \<Rightarrow> pheromone option" where
  "first_smelled ax ay [] = None"
| "first_smelled ax ay (p # ps) =
     (if dist_to ax ay p < 50 then Some p else first_smelled ax ay ps)"

text \<open>Python's \<^verbatim>\<open>min(xs, key=k)\<close> on a non-empty sequence: the first element of least key.\<close>

fun py_min_by :: "('a \<Rightarrow> real) \<Rightarrow> 'a \<Rightarrow> 'a list \<Rightarrow> 'a" where
  "py_min_by k best [] = best"
| "py_min_by k best (f # fs) = py_min_by k (if k f < k best then f else best) fs"

text \<open>Steps 1 and 2 of the seeking branch of \<^verbatim>\<open>WorkerAnt.update\<close>: the choice of the target.\<close>

definition seek_target :: "worker_ant \<Rightarrow> food list \<Rightarrow> pheromone list \<Rightarrow> (int \<times> int) option" where
  "seek_target a food_group pheromone_group =
     (case first_smelled (x a) (y a) pheromone_group of
        Some p \<Rightarrow> Some (center (rect p))
      | None \<Rightarrow>
          (case food_group of
             [] \<Rightarrow> None
           | f # fs \<Rightarrow>
               (let closest_food = py_min_by (dist_to (x a) (y a)) f fs;
                    dist = dist_to (x a) (y a) closest_food
                in if dist < 100 then Some (center (rect closest_food)) else None)))"

text \<open>\<^verbatim>\<open>collided_food[0].take_chunk()\<close>: the first pile of the group that the rectangle hits
  loses one chunk.\<close>

fun take_first_chunk :: "rect \<Rightarrow> food list \<Rightarrow> food list" where
  "take_first_chunk r [] = []"
| "take_first_chunk r (f # fs) =
     (if colliderect r (rect f) then
        (case take_chunk f of None \<Rightarrow> fs | Some f' \<Rightarrow> f' # fs)
      else f # take_first_chunk r fs)"

text \<open>
  \<^verbatim>\<open>WorkerAnt.update\<close> up to the movement logic: the target, the worker, and the two
  groups that the worker changes.
\<close>

definition worker_decide ::
  "worker_ant \<Rightarrow> food list \<Rightarrow> pheromone list \<Rightarrow>
   (int \<times> int) option \<times> worker_ant \<times> food list \<times> pheromone list" where
  "worker_decide a food_group pheromone_group =
     (if state a = STATE_SEEKING_FOOD then
        (let target = seek_target a food_group pheromone_group
         in if spritecollide a food_group \<noteq> [] then
              (target, a\<lparr>state := STATE_RETURNING_TO_NEST\<rparr>,
               take_first_chunk (rect a) food_group, pheromone_group)
            else (target, a, food_group, pheromone_group))
      else if state a = STATE_RETURNING_TO_NEST then
        (let target = Some (center (nest_rect a));
             (a1, pheromone_group1) = drop_pheromone pheromone_group a;
             a2 = (if colliderect (rect a1) (nest_rect a1)
                   then a1\<lparr>state := STATE_SEEKING_FOOD, direction := direction a1 + 180\<rparr>
                   else a1)
         in (target, a2, food_group, pheromone_group1))
      else (None, a, food_group, pheromone_group))"

definition worker_update ::
  "worker_ant \<Rightarrow> draws \<Rightarrow> food list \<Rightarrow> pheromone list \<Rightarrow> obstacle list \<Rightarrow>
   worker_ant \<times> food list \<times> pheromone list" where
  "worker_update a d food_group pheromone_group obstacle_group =
     (let (target, a1, food_group1, pheromone_group1) = worker_decide a food_group pheromone_group;
          a2 = steer_or_wander target (wander_u d) a1
      in (move (deflect_u d) obstacle_group a2, food_group1, pheromone_group1))"

text \<open>
  Names for the intermediate results of \<open>worker_update\<close>: the target, the worker after the
  state logic, and the worker after steering or wandering, as it enters \<open>move\<close>.
\<close>

definition worker_target :: "worker_ant \<Rightarrow> food list \<Rightarrow> pheromone list \<Rightarrow> (int \<times> int) option" where
  "worker_target a food_group pheromone_group = fst (worker_decide a food_group pheromone_group)"

definition worker_decided :: "worker_ant \<Rightarrow> food list \<Rightarrow> pheromone list \<Rightarrow> worker_ant" where
  "worker_decided a food_group pheromone_group =
     fst (snd (worker_decide a food_group pheromone_group))"

definition worker_pre_move ::
  "worker_ant \<Rightarrow> draws \<Rightarrow> food list \<Rightarrow> pheromone list \<Rightarrow> worker_ant" where
  "worker_pre_move a d food_group pheromone_group =
     steer_or_wander (worker_target a food_group pheromone_group) (wander_u d)
       (worker_decided a food_group pheromone_group)"

section \<open>Soldier ants\<close>

record soldier_ant = ant +
  soldier_state :: int

definition SoldierAnt :: "int \<Rightarrow> int \<Rightarrow> real \<Rightarrow> soldier_ant" where
  "SoldierAnt ix iy u =
     \<lparr>rect = get_rect_center 5 5 (ix, iy),
      x = real_of_int ix, y = real_of_int iy,
      speed = ANT_SPEED, direction = uniform 0 360 u, turn_speed = ANT_TURN_SPEED,
      soldier_state = STATE_WANDERING\<rparr>"

definition soldier_update :: "soldier_ant \<Rightarrow> draws \<Rightarrow> obstacle list \<Rightarrow> soldier_ant" where
  "soldier_update a d obstacle_group = move (deflect_u d) obstacle_group (wander (wander_u d) a)"

section \<open>The simulation\<close>

datatype any_ant = Worker worker_ant | Soldier soldier_ant

record sim =
  ants :: "any_ant list"
  foods :: "food list"
  pheromones :: "pheromone list"
  obstacles :: "obstacle list"

fun update_ant ::
  "any_ant \<Rightarrow> draws \<Rightarrow> food list \<Rightarrow> pheromone list \<Rightarrow> obstacle list \<Rightarrow>
   any_ant \<times> food list \<times> pheromone list" where
  "update_ant (Worker a) d food_group pheromone_group obstacle_group =
     (let (a', food_group1, pheromone_group1) =
            worker_update a d food_group pheromone_group obstacle_group
      in (Worker a', food_group1, pheromone_group1))"
| "update_ant (Soldier a) d food_group pheromone_group obstacle_group =
     (Soldier (soldier_update a d obstacle_group), food_group, pheromone_group)"

text \<open>
  \<^verbatim>\<open>ant_group.update(...)\<close>: the ants are updated one after the other, in the order of the
  group, each on the groups as the ants before it left them. \<open>rnd k\<close> holds the draws of the
  ant at position \<open>k\<close>.
\<close>

fun ant_group_update ::
  "(nat \<Rightarrow> draws) \<Rightarrow> nat \<Rightarrow> any_ant list \<Rightarrow> food list \<Rightarrow> pheromone list \<Rightarrow> obstacle list \<Rightarrow>
   any_ant list \<times> food list \<times> pheromone list" where
  "ant_group_update rnd k [] food_group pheromone_group obstacle_group =
     ([], food_group, pheromone_group)"
| "ant_group_update rnd k (a # rest) food_group pheromone_group obstacle_group =
     (let (a', food_group1, pheromone_group1) =
            update_ant a (rnd k) food_group pheromone_group obstacle_group;
          (rest', food_group2, pheromone_group2) =
            ant_group_update rnd (Suc k) rest food_group1 pheromone_group1 obstacle_group
      in (a' # rest', food_group2, pheromone_group2))"

text \<open>The food group and the pheromone group as the ant at each position of the ant group
  finds them when its update starts.\<close>

fun groups_seen ::
  "(nat \<Rightarrow> draws) \<Rightarrow> nat \<Rightarrow> any_ant list \<Rightarrow> food list \<Rightarrow> pheromone list \<Rightarrow> obstacle list \<Rightarrow>
   (food list \<times> pheromone list) list" where
  "groups_seen rnd k [] food_group pheromone_group obstacle_group = []"
| "groups_seen rnd k (a # rest) food_group pheromone_group obstacle_group =
     (let (a', food_group1, pheromone_group1) =
            update_ant a (rnd k) food_group pheromone_group obstacle_group
      in (food_group, pheromone_group) #
         groups_seen rnd (Suc k) rest food_group1 pheromone_group1 obstacle_group)"

text \<open>The update part of one pass of the game loop: the ants, then the pheromones.\<close>

definition step :: "(nat \<Rightarrow> draws) \<Rightarrow> sim \<Rightarrow> sim" where
  "step rnd s =
     (let (ants', food_group, pheromone_group) =
            ant_group_update rnd 0 (ants s) (foods s) (pheromones s) (obstacles s)
      in s\<lparr>ants := ants', foods := food_group,
            pheromones := pheromone_group_update pheromone_group\<rparr>)"

text \<open>
  The pheromone group over several passes of the game loop: in each pass the ants append
  the markers they deposit, then the group is updated once.
\<close>

fun field_run :: "pheromone list \<Rightarrow> pheromone list list \<Rightarrow> pheromone list" where
  "field_run field [] = field"
| "field_run field (deposits # rest) =
     field_run (pheromone_group_update (field @ deposits)) rest"

text \<open>The pheromone groups that the simulation can reach from the empty group: by a
  deposit of a worker and by the update of the group.\<close>

inductive field_reachable :: "pheromone list \<Rightarrow> bool" where
  empty: "field_reachable []"
| deposit: "field_reachable field \<Longrightarrow> field_reachable (field @ [Pheromone px py])"
| decay: "field_reachable field \<Longrightarrow> field_reachable (pheromone_group_update field)"

text \<open>
  One worker over several updates, each with its own draws and on its own groups: the
  states a worker can reach, whatever the other ants do.
\<close>

fun worker_ticks ::
  "worker_ant \<Rightarrow> (draws \<times> food list \<times> pheromone list \<times> obstacle list) list \<Rightarrow> worker_ant" where
  "worker_ticks a [] = a"
| "worker_ticks a ((d, food_group, pheromone_group, obstacle_group) # rest) =
     worker_ticks (fst (worker_update a d food_group pheromone_group obstacle_group)) rest"

section \<open>The set-up of main\<close>

text \<open>
  The module constants that \<^verbatim>\<open>main\<close> reads when it fills the groups. They are arguments of
  the set-up here; \<open>source_params\<close> holds the values of the source.
\<close>

record params =
  total_ants :: int
  worker_ratio :: real
  food_piles :: int
  food_amount_per_pile :: int

definition source_params :: params where
  "source_params =
     \<lparr>total_ants = TOTAL_ANTS, worker_ratio = WORKER_RATIO,
      food_piles = FOOD_PILES, food_amount_per_pile = FOOD_AMOUNT_PER_PILE\<rparr>"

text \<open>The random values drawn for one ant: the two \<^verbatim>\<open>randint(-10, 10)\<close>, the \<^verbatim>\<open>random()\<close>
  that decides the role, and the \<^verbatim>\<open>random()\<close> behind the heading.\<close>

record ant_draw =
  jitter_x :: int
  jitter_y :: int
  role_u :: real
  heading_u :: real

definition main_nest_rect :: rect where
  "main_nest_rect =
     \<lparr>rect_x = SCREEN_WIDTH div 2 - 20, rect_y = SCREEN_HEIGHT div 2 - 20, rect_w = 40, rect_h = 40\<rparr>"

definition main_obstacles :: "obstacle list" where
  "main_obstacles =
     [Obstacle 100 150 20 300, Obstacle 600 150 20 300,
      Obstacle 300 100 200 20, Obstacle 300 480 200 20]"

definition make_ant :: "params \<Rightarrow> ant_draw \<Rightarrow> any_ant" where
  "make_ant P d =
     (let ax = centerx main_nest_rect + jitter_x d;
          ay = centery main_nest_rect + jitter_y d
      in if role_u d < worker_ratio P
         then Worker (WorkerAnt ax ay main_nest_rect (heading_u d))
         else Soldier (SoldierAnt ax ay (heading_u d)))"

text \<open>
  \<^verbatim>\<open>main\<close> up to the game loop. \<^verbatim>\<open>range(n)\<close> is empty for a negative \<open>n\<close>. \<open>ad i\<close> and
  \<open>fd i\<close> are the random values drawn in round \<open>i\<close> of the ant loop and of the food loop.
  The source has no check of the constants and no \<^verbatim>\<open>raise\<close>: the set-up always returns.
\<close>

definition main_setup :: "params \<Rightarrow> (nat \<Rightarrow> ant_draw) \<Rightarrow> (nat \<Rightarrow> int \<times> int) \<Rightarrow> sim" where
  "main_setup P ad fd =
     \<lparr>ants = map (\<lambda>i. make_ant P (ad i)) [0..<nat (total_ants P)],
      foods = map (\<lambda>i. Food (food_amount_per_pile P) (fst (fd i)) (snd (fd i)))
                [0..<nat (food_piles P)],
      pheromones = [],
      obstacles = main_obstacles\<rparr>"

section \<open>Notions of the specification\<close>

text \<open>The remainder of real numbers, and with it the angular distance between two headings:
  the length of the shorter arc.\<close>

definition real_mod :: "real \<Rightarrow> real \<Rightarrow> real" where
  "real_mod a m = a - m * real_of_int \<lfloor>a / m\<rfloor>"

definition ang_dist :: "real \<Rightarrow> real \<Rightarrow> real" where
  "ang_dist h1 h2 = (let d = real_mod (h1 - h2) 360 in min d (360 - d))"

text \<open>
  What the constructors establish and \<open>move\<close> keeps for every ant: the speed of the source,
  a rectangle of 5 by 5, and a position strictly inside the screen.
\<close>

definition ant_ok :: "'a ant_scheme \<Rightarrow> bool" where
  "ant_ok a \<longleftrightarrow>
     speed a = ANT_SPEED \<and> rect_w (rect a) = 5 \<and> rect_h (rect a) = 5 \<and>
     0 < x a \<and> x a < real_of_int SCREEN_WIDTH \<and> 0 < y a \<and> y a < real_of_int SCREEN_HEIGHT"

definition any_ant_ok :: "any_ant \<Rightarrow> bool" where
  "any_ant_ok a = (case a of Worker w \<Rightarrow> ant_ok w | Soldier w \<Rightarrow> ant_ok w)"

section \<open>Concrete ants and groups, for the examples\<close>

definition ex_ant :: ant where
  "ex_ant =
     \<lparr>rect = get_rect_center 5 5 (400, 300), x = 400, y = 300,
      speed = ANT_SPEED, direction = 10, turn_speed = ANT_TURN_SPEED\<rparr>"

definition ex_corner_ant :: ant where
  "ex_corner_ant =
     \<lparr>rect = get_rect_center 5 5 (800, 600), x = 1599 / 2, y = 1199 / 2,
      speed = ANT_SPEED, direction = 45, turn_speed = ANT_TURN_SPEED\<rparr>"

definition ex_east_ant :: ant where
  "ex_east_ant =
     \<lparr>rect = get_rect_center 5 5 (799, 300), x = 799, y = 300,
      speed = ANT_SPEED, direction = 0, turn_speed = ANT_TURN_SPEED\<rparr>"


definition ex_soldier :: soldier_ant where
  "ex_soldier = SoldierAnt 400 300 0"

definition ex_draws :: draws where
  "ex_draws = \<lparr>wander_u = 0, deflect_u = 0\<rparr>"

definition ex_home_worker :: worker_ant where
  "ex_home_worker =
     \<lparr>rect = get_rect_center 5 5 (421, 300), x = 841 / 2, y = 300,
      speed = ANT_SPEED, direction = 180, turn_speed = ANT_TURN_SPEED,
      nest_rect = main_nest_rect, state = STATE_RETURNING_TO_NEST, pheromone_cooldown = 3\<rparr>"

definition ex_seeker :: worker_ant where
  "ex_seeker = WorkerAnt 400 300 main_nest_rect (1 / 128)"

definition ex_food :: food where
  "ex_food = Food FOOD_AMOUNT_PER_PILE 450 300"

definition ex_home_worker2 :: worker_ant where
  "ex_home_worker2 =
     \<lparr>rect = get_rect_center 5 5 (410, 300), x = 410, y = 300,
      speed = ANT_SPEED, direction = 2, turn_speed = ANT_TURN_SPEED,
      nest_rect = main_nest_rect, state = STATE_RETURNING_TO_NEST, pheromone_cooldown = 0\<rparr>"

definition ex_trail :: "pheromone list" where
  "ex_trail = [Pheromone 430 300, Pheromone 410 300]"

definition ex_field :: "pheromone list" where
  "ex_field = pheromone_group_update [Pheromone 410 300]"

definition ex_sim :: sim where
  "ex_sim =
     \<lparr>ants = [Worker ex_home_worker2, Worker ex_seeker], foods = [], pheromones = [],
      obstacles = main_obstacles\<rparr>"

definition ex_bad_params :: params where
  "ex_bad_params =
     \<lparr>total_ants = 2, worker_ratio = 3 / 2, food_piles = - 1, food_amount_per_pile = - 5\<rparr>"

definition ex_ant_draws :: "nat \<Rightarrow> ant_draw" where
  "ex_ant_draws i = \<lparr>jitter_x = 0, jitter_y = 0, role_u = 1 / 2, heading_u = 0\<rparr>"

definition ex_food_draws :: "nat \<Rightarrow> int \<times> int" where
  "ex_food_draws i = (100, 100)"

definition ex_edge_ant :: ant where
  "ex_edge_ant =
     \<lparr>rect = get_rect_center 5 5 (400, 300), x = 400, y = 300,
      speed = ANT_SPEED, direction = - 5 - 1 / 2 ^ 50, turn_speed = ANT_TURN_SPEED\<rparr>"


definition ex_edge_worker :: worker_ant where
  "ex_edge_worker =
     \<lparr>rect = get_rect_center 5 5 (400, 290), x = 400, y = 290,
      speed = ANT_SPEED, direction = - 185 - 1 / 2 ^ 45, turn_speed = ANT_TURN_SPEED,
      nest_rect = main_nest_rect, state = STATE_RETURNING_TO_NEST, pheromone_cooldown = 0\<rparr>"

section \<open>Doubles\<close>

lemma round_even_ge: "real_of_int n \<le> r \<Longrightarrow> n \<le> round_even r"
proof -
  assume "real_of_int n \<le> r"
  then have "n \<le> \<lfloor>r\<rfloor>" by (simp add: le_floor_iff)
  then show ?thesis by (simp add: round_even_def Let_def)
qed

lemma round_even_le: "r \<le> real_of_int n \<Longrightarrow> round_even r \<le> n"
proof (cases "r = real_of_int n")
  case True
  then show ?thesis by (simp add: round_even_def Let_def)
next
  case False
  assume "r \<le> real_of_int n"
  with False have "r < real_of_int n" by simp
  then have "\<lfloor>r\<rfloor> < n" by (simp add: floor_less_iff)
  then show ?thesis by (simp add: round_even_def Let_def)
qed

lemma round_even_of_int: "round_even (real_of_int n) = n"
  by (simp add: round_even_def Let_def)

lemma fl64_pos_grid:
  assumes "0 < v" "v < 2 ^ 53"
  shows "fl64_pos v =
     real_of_int (round_even (v * 2 ^ nat (52 - \<lfloor>log 2 v\<rfloor>))) / 2 ^ nat (52 - \<lfloor>log 2 v\<rfloor>)"
proof -
  let ?e = "\<lfloor>log 2 v\<rfloor>"
  let ?k = "nat (52 - ?e)"
  have "log 2 v < 53"
    using assms by (simp add: log_less_iff)
  then have e: "?e \<le> 52" by (simp add: floor_le_iff)
  then have "real_of_int (?e - 52) = - real ?k" by simp
  then have "2 powr real_of_int (?e - 52) = inverse (2 powr real ?k)"
    by (simp only: powr_minus)
  also have "\<dots> = inverse (2 ^ ?k)" by (simp add: powr_realpow)
  finally have q: "2 powr real_of_int (?e - 52) = inverse (2 ^ ?k)" .
  show ?thesis
    unfolding fl64_pos_def Let_def q by (simp add: divide_inverse mult.commute)
qed

lemma fl64_pos_binade:
  assumes "2 ^ j \<le> v" "v < 2 ^ Suc j" "j \<le> 52"
  shows "fl64_pos v = real_of_int (round_even (v * 2 ^ (52 - j))) / 2 ^ (52 - j)"
proof -
  have v: "0 < v" using assms(1) by (smt (verit) zero_less_power)
  have "2 powr real_of_int (int j) \<le> v \<and> v < 2 powr real_of_int (int j + 1)"
    using assms by (simp add: powr_realpow powr_add)
  then have e: "\<lfloor>log 2 v\<rfloor> = int j"
    using v by (simp add: floor_log_eq_powr_iff)
  have "v < 2 ^ 53"
  proof -
    have "(2::real) ^ Suc j \<le> 2 ^ 53" using assms(3) by (intro power_increasing) simp_all
    with assms(2) show ?thesis by linarith
  qed
  from fl64_pos_grid [OF v this] show ?thesis
    using assms(3) by (simp add: e nat_diff_distrib)
qed


lemma fl64_pos_le:
  assumes "0 < v" "v \<le> real_of_int c" "real_of_int c < 2 ^ 53"
  shows "fl64_pos v \<le> real_of_int c"
proof -
  let ?k = "nat (52 - \<lfloor>log 2 v\<rfloor>)"
  have v: "v < 2 ^ 53" using assms by linarith
  have "v * 2 ^ ?k \<le> real_of_int c * 2 ^ ?k"
    using assms(2) by (simp add: mult_right_mono)
  then have "v * 2 ^ ?k \<le> real_of_int (c * 2 ^ ?k)" by simp
  then have "round_even (v * 2 ^ ?k) \<le> c * 2 ^ ?k" by (rule round_even_le)
  then have "real_of_int (round_even (v * 2 ^ ?k)) \<le> real_of_int (c * 2 ^ ?k)"
    by (simp only: of_int_le_iff)
  then have "real_of_int (round_even (v * 2 ^ ?k)) / 2 ^ ?k \<le> real_of_int c"
    by (simp add: divide_le_eq)
  then show ?thesis by (simp only: fl64_pos_grid [OF assms(1) v])
qed

lemma fl64_pos_ge:
  assumes "0 < v" "real_of_int c \<le> v" "v < 2 ^ 53"
  shows "real_of_int c \<le> fl64_pos v"
proof -
  let ?k = "nat (52 - \<lfloor>log 2 v\<rfloor>)"
  have "real_of_int c * 2 ^ ?k \<le> v * 2 ^ ?k"
    using assms(2) by (simp add: mult_right_mono)
  then have "real_of_int (c * 2 ^ ?k) \<le> v * 2 ^ ?k" by simp
  then have "c * 2 ^ ?k \<le> round_even (v * 2 ^ ?k)" by (rule round_even_ge)
  then have "real_of_int (c * 2 ^ ?k) \<le> real_of_int (round_even (v * 2 ^ ?k))"
    by (simp only: of_int_le_iff)
  then have "real_of_int c \<le> real_of_int (round_even (v * 2 ^ ?k)) / 2 ^ ?k"
    by (simp add: le_divide_eq)
  then show ?thesis by (simp only: fl64_pos_grid [OF assms(1) assms(3)])
qed

lemma fl64_minus: "fl64 (- v) = - fl64 v"
  by (simp add: fl64_def)

lemma fl64_le:
  assumes "0 \<le> v" "v \<le> real_of_int c" "real_of_int c < 2 ^ 53"
  shows "fl64 v \<le> real_of_int c"
proof (cases "v = 0")
  case True
  then show ?thesis using assms by (simp add: fl64_def)
next
  case False
  then have "0 < v" using assms(1) by simp
  then show ?thesis using fl64_pos_le [OF _ assms(2,3)] by (simp add: fl64_def)
qed

lemma fl64_ge:
  assumes "0 \<le> real_of_int c" "real_of_int c \<le> v" "v < 2 ^ 53"
  shows "real_of_int c \<le> fl64 v"
proof (cases "v = 0")
  case True
  then show ?thesis using assms by (simp add: fl64_def)
next
  case False
  then have "0 < v" using assms(1,2) by simp
  then show ?thesis using fl64_pos_ge [OF _ assms(2,3)] by (simp add: fl64_def)
qed

lemma fl64_nonneg: "0 \<le> v \<Longrightarrow> v < 2 ^ 53 \<Longrightarrow> 0 \<le> fl64 v"
  using fl64_ge [of 0 v] by simp

lemma fl64_of_nat_int: "0 \<le> n \<Longrightarrow> real_of_int n < 2 ^ 53 \<Longrightarrow> fl64 (real_of_int n) = real_of_int n"
proof -
  assume h: "0 \<le> n" "real_of_int n < 2 ^ 53"
  have "fl64 (real_of_int n) \<le> real_of_int n"
    using h by (intro fl64_le) simp_all
  moreover have "real_of_int n \<le> fl64 (real_of_int n)"
    using h by (intro fl64_ge) simp_all
  ultimately show ?thesis by simp
qed

lemma fl64_of_int: "\<bar>real_of_int n\<bar> < 2 ^ 53 \<Longrightarrow> fl64 (real_of_int n) = real_of_int n"
proof (cases "0 \<le> n")
  case True
  assume "\<bar>real_of_int n\<bar> < 2 ^ 53"
  with True show ?thesis by (intro fl64_of_nat_int) simp_all
next
  case False
  assume a: "\<bar>real_of_int n\<bar> < 2 ^ 53"
  have "fl64 (real_of_int (- n)) = real_of_int (- n)"
    using False a by (intro fl64_of_nat_int) simp_all
  then show ?thesis using fl64_minus [of "real_of_int n"] by simp
qed

lemma fl64_numeral [simp]: "fl64 360 = 360" "fl64 180 = 180" "fl64 10 = 10" "fl64 90 = 90"
  "fl64 (- 5) = - 5" "fl64 355 = 355" "fl64 0 = 0"
  using fl64_of_int [of 360] fl64_of_int [of 180] fl64_of_int [of 10] fl64_of_int [of 90]
    fl64_of_int [of "- 5"] fl64_of_int [of 355] fl64_of_int [of 0]
  by simp_all

lemma fl64_seeker: "fl64 (45 / 16) = 45 / 16"
proof -
  have "fl64_pos (45 / 16) = real_of_int (round_even ((45 / 16) * 2 ^ (52 - 1))) / 2 ^ (52 - 1)"
    by (rule fl64_pos_binade) simp_all
  also have "\<dots> = 45 / 16"
    by (simp add: round_even_def Let_def)
  finally show ?thesis by (simp add: fl64_def)
qed

lemma fl64_below_360: "fl64 (360 - 1 / 2 ^ 50) = 360"
proof -
  have "fl64_pos (360 - 1 / 2 ^ 50) =
      real_of_int (round_even ((360 - 1 / 2 ^ 50) * 2 ^ (52 - 8))) / 2 ^ (52 - 8)"
    by (rule fl64_pos_binade) simp_all
  also have "\<dots> = 360"
    by (simp add: round_even_def Let_def)
  finally show ?thesis by (simp add: fl64_def)
qed

lemma fl64_tie_360: "fl64 (360 - 1 / 2 ^ 45) = 360"
proof -
  have "fl64_pos (360 - 1 / 2 ^ 45) =
      real_of_int (round_even ((360 - 1 / 2 ^ 45) * 2 ^ (52 - 8))) / 2 ^ (52 - 8)"
    by (rule fl64_pos_binade) simp_all
  also have "\<dots> = 360"
    by (simp add: round_even_def Let_def)
  finally show ?thesis by (simp add: fl64_def)
qed



section \<open>The remainder and the shorter arc\<close>

lemma real_mod_range: "0 < m \<Longrightarrow> 0 \<le> real_mod a m \<and> real_mod a m < m"
proof -
  assume m: "0 < m"
  have f1: "of_int \<lfloor>a / m\<rfloor> \<le> a / m"
    by (rule of_int_floor_le)
  have f2: "a / m < of_int \<lfloor>a / m\<rfloor> + 1"
    by linarith
  have "of_int \<lfloor>a / m\<rfloor> * m \<le> a"
    using f1 pos_le_divide_eq [OF m, of "of_int \<lfloor>a / m\<rfloor>" a] by blast
  moreover have "a < (of_int \<lfloor>a / m\<rfloor> + 1) * m"
    using f2 pos_divide_less_eq [OF m, of a "of_int \<lfloor>a / m\<rfloor> + 1"] by blast
  ultimately show ?thesis
    by (simp add: real_mod_def algebra_simps)
qed

lemma real_mod_shift: "m \<noteq> 0 \<Longrightarrow> real_mod (a + m * of_int k) m = real_mod a m"
proof -
  assume m: "m \<noteq> 0"
  have "(a + m * of_int k) / m = a / m + of_int k"
    using m by (simp add: add_divide_distrib)
  then have "\<lfloor>(a + m * of_int k) / m\<rfloor> = \<lfloor>a / m\<rfloor> + k"
    by simp
  then show ?thesis
    by (simp add: real_mod_def algebra_simps)
qed

lemma real_mod_unique:
  assumes "0 < m" "0 \<le> r" "r < m" "a = r + m * of_int k"
  shows "real_mod a m = r"
proof -
  have "real_mod a m = real_mod r m"
    using assms real_mod_shift [of m r k] by simp
  moreover have "\<lfloor>r / m\<rfloor> = 0"
    using assms by (simp add: floor_eq_iff)
  ultimately show ?thesis
    by (simp add: real_mod_def)
qed

lemma real_mod_id: "0 \<le> a \<Longrightarrow> a < m \<Longrightarrow> real_mod a m = a"
  using real_mod_unique [of m a a 0] by simp

lemma real_mod_decomp: "a = real_mod a m + m * of_int \<lfloor>a / m\<rfloor>"
  by (simp add: real_mod_def)


lemma real_mod_sub_left: "real_mod (real_mod a 360 - b) 360 = real_mod (a - b) 360"
proof -
  have eq: "real_mod a 360 - b = (a - b) + 360 * of_int (- \<lfloor>a / 360\<rfloor>)"
    by (simp add: real_mod_def)
  have "real_mod (real_mod a 360 - b) 360 = real_mod ((a - b) + 360 * of_int (- \<lfloor>a / 360\<rfloor>)) 360"
    by (simp only: eq)
  also have "\<dots> = real_mod (a - b) 360"
    by (rule real_mod_shift) simp
  finally show ?thesis .
qed



lemma shortest_diff:
  "real_mod (d + 180) 360 - 180 = (if real_mod d 360 < 180 then real_mod d 360 else real_mod d 360 - 360)"
proof -
  let ?e = "real_mod d 360"
  have r: "0 \<le> ?e \<and> ?e < 360" by (rule real_mod_range) simp
  have dec: "d = ?e + 360 * of_int \<lfloor>d / 360\<rfloor>" by (rule real_mod_decomp)
  show ?thesis
  proof (cases "?e < 180")
    case True
    have h: "d + 180 = (?e + 180) + 360 * of_int \<lfloor>d / 360\<rfloor>" using dec by linarith
    have "real_mod (d + 180) 360 = ?e + 180"
    proof (rule real_mod_unique [where k = "\<lfloor>d / 360\<rfloor>"])
      show "d + 180 = (?e + 180) + 360 * of_int \<lfloor>d / 360\<rfloor>" by (rule h)
    qed (use r True in auto)
    then show ?thesis using True by simp
  next
    case False
    have h: "d + 180 = (?e - 180) + 360 * of_int (\<lfloor>d / 360\<rfloor> + 1)"
      by (simp add: real_mod_def)
    have "real_mod (d + 180) 360 = ?e - 180"
    proof (rule real_mod_unique [where k = "\<lfloor>d / 360\<rfloor> + 1"])
      show "d + 180 = (?e - 180) + 360 * of_int (\<lfloor>d / 360\<rfloor> + 1)" by (rule h)
    qed (use r False in auto)
    then show ?thesis using False by simp
  qed
qed

lemma ang_dist_snap:
  "ang_dist (real_mod t 360) c = \<bar>real_mod (t - c + 180) 360 - 180\<bar>"
proof -
  let ?e = "real_mod (t - c) 360"
  have r: "0 \<le> ?e \<and> ?e < 360" by (rule real_mod_range) simp
  have "real_mod (t - c + 180) 360 - 180 = (if ?e < 180 then ?e else ?e - 360)"
    by (rule shortest_diff)
  then show ?thesis
    using r by (simp add: ang_dist_def Let_def real_mod_sub_left min_def)
qed



section \<open>The remainder of floats\<close>

lemma c_fmod_nonneg: "0 \<le> a \<Longrightarrow> c_fmod a 360 = real_mod a 360"
  by (simp add: c_fmod_def c_trunc_def real_mod_def)

lemma c_fmod_neg:
  assumes "a < 0"
  shows "c_fmod a 360 = (if real_mod a 360 = 0 then 0 else real_mod a 360 - 360)"
proof (cases "real_of_int \<lfloor>a / 360\<rfloor> = a / 360")
  case True
  then have c: "\<lceil>a / 360\<rceil> = \<lfloor>a / 360\<rfloor>"
    by (metis ceiling_of_int)
  have "real_mod a 360 = 0" using True by (simp add: real_mod_def)
  moreover have "c_fmod a 360 = 0"
    using assms True by (simp add: c_fmod_def c_trunc_def c)
  ultimately show ?thesis by simp
next
  case False
  then have c: "\<lceil>a / 360\<rceil> = \<lfloor>a / 360\<rfloor> + 1"
    by (simp add: ceiling_altdef)
  have "real_mod a 360 \<noteq> 0" using False by (simp add: real_mod_def)
  moreover have "c_fmod a 360 = real_mod a 360 - 360"
    using assms by (simp add: c_fmod_def c_trunc_def c real_mod_def)
  ultimately show ?thesis by simp
qed

lemma py_mod_nonneg: "0 \<le> a \<Longrightarrow> py_mod a 360 = real_mod a 360"
  using real_mod_range [of 360 a] by (simp add: py_mod_def Let_def c_fmod_nonneg)

lemma py_mod_neg: "a < 0 \<Longrightarrow> py_mod a 360 = fl64 (real_mod a 360)"
  using real_mod_range [of 360 a] by (simp add: py_mod_def Let_def c_fmod_neg)

lemma fl64_real_mod_range: "0 \<le> fl64 (real_mod a 360) \<and> fl64 (real_mod a 360) \<le> 360"
proof -
  have r: "0 \<le> real_mod a 360 \<and> real_mod a 360 < 360" by (rule real_mod_range) simp
  have "fl64 (real_mod a 360) \<le> real_of_int 360"
    using r by (intro fl64_le) simp_all
  moreover have "real_of_int 0 \<le> fl64 (real_mod a 360)"
    using r by (intro fl64_ge) simp_all
  ultimately show ?thesis by simp
qed

lemma py_mod_range: "0 \<le> py_mod a 360 \<and> py_mod a 360 \<le> 360"
proof (cases "a < 0")
  case True
  then show ?thesis using fl64_real_mod_range [of a] by (simp add: py_mod_neg)
next
  case False
  then show ?thesis using real_mod_range [of 360 a] by (simp add: py_mod_nonneg)
qed

lemma py_mod_id: "0 \<le> a \<Longrightarrow> a < 360 \<Longrightarrow> py_mod a 360 = a"
  by (simp add: py_mod_nonneg real_mod_id)


section \<open>Steering\<close>

lemma ang_dist_real_mod: "ang_dist (real_mod t 360) c = ang_dist t c"
  by (simp add: ang_dist_def real_mod_sub_left)

lemma ang_dist_exact_diff: "ang_dist t c = \<bar>real_mod (t - c + 180) 360 - 180\<bar>"
  using ang_dist_snap [of t c] by (simp add: ang_dist_real_mod)



lemma steer_turned: "direction (steer t a) = py_mod (turned_heading t a) 360"
  by (simp add: steer_def turned_heading_def Let_def)

lemma steer_range: "0 \<le> direction (steer t a) \<and> direction (steer t a) \<le> 360"
  by (simp add: steer_turned py_mod_range)

lemma steer_direction_only:
  "direction a = direction b \<Longrightarrow> turn_speed a = turn_speed b \<Longrightarrow>
   direction (steer t a) = direction (steer t b)"
  by (simp add: steer_def Let_def)

lemma turned_heading_only:
  "direction a = direction b \<Longrightarrow> turn_speed a = turn_speed b \<Longrightarrow>
   turned_heading t a = turned_heading t b"
  by (simp add: turned_heading_def Let_def)



text \<open>
  Claim C4. \<open>steer\<close> ends with \<^verbatim>\<open>self.direction %= 360\<close>, under the comment that the
  direction is kept between 0 and 360, and the claim puts the result into \<open>[0, 360)\<close>. At
  the heading \<open>- 5 - 2\<^sup>-\<^sup>5\<^sup>0\<close>, which is a double, with the target angle 90 and the turn rate 5,
  the difference is above 5, the heading is turned by 5 to \<open>- 2\<^sup>-\<^sup>5\<^sup>0\<close>, and the remainder of
  that is \<open>fmod\<close>'s \<open>- 2\<^sup>-\<^sup>5\<^sup>0\<close> plus 360, which rounds to 360: the result is 360, outside
  \<open>[0, 360)\<close>, and its angular distance to the heading before is \<open>5 + 2\<^sup>-\<^sup>5\<^sup>0\<close>, above the
  turn rate.
\<close>

theorem steer_returns_360:
  "turn_speed ex_edge_ant = 5 \<and> direction ex_edge_ant = - 5 - 1 / 2 ^ 50 \<and>
   direction (steer 90 ex_edge_ant) = 360 \<and>
   \<not> direction (steer 90 ex_edge_ant) < 360 \<and>
   ang_dist (direction (steer 90 ex_edge_ant)) (direction ex_edge_ant) = 5 + 1 / 2 ^ 50 \<and>
   \<not> ang_dist (direction (steer 90 ex_edge_ant)) (direction ex_edge_ant)
       \<le> turn_speed ex_edge_ant"
proof -
  have a: "turn_speed ex_edge_ant = 5" "direction ex_edge_ant = - 5 - 1 / 2 ^ 50"
    by (simp_all add: ex_edge_ant_def ANT_TURN_SPEED_def)
  have r1: "real_mod (275 + 1 / 2 ^ 50) 360 = 275 + 1 / 2 ^ 50"
    by (rule real_mod_id) simp_all
  have "py_mod (275 + 1 / 2 ^ 50) 360 = real_mod (275 + 1 / 2 ^ 50) 360"
    by (rule py_mod_nonneg) simp
  then have d0: "py_mod (275 + 1 / 2 ^ 50) 360 = 275 + 1 / 2 ^ 50"
    unfolding r1 .
  have "90 - direction ex_edge_ant + 180 = 275 + 1 / 2 ^ 50"
    unfolding a by simp
  then have d: "py_mod (90 - direction ex_edge_ant + 180) 360 = 275 + 1 / 2 ^ 50"
    using d0 by presburger
  have t: "turned_heading 90 ex_edge_ant = - (1 / 2 ^ 50)"
    unfolding turned_heading_def Let_def d by (simp add: a)
  have r2: "real_mod (- (1 / 2 ^ 50)) 360 = 360 - 1 / 2 ^ 50"
    by (rule real_mod_unique [where k = "- 1"]) simp_all
  have "py_mod (- (1 / 2 ^ 50)) 360 = fl64 (real_mod (- (1 / 2 ^ 50)) 360)"
    by (rule py_mod_neg) simp
  then have s: "direction (steer 90 ex_edge_ant) = 360"
    unfolding steer_turned t r2 fl64_below_360 .
  have e0: "ang_dist 360 (- 5 - 1 / 2 ^ 50) = \<bar>real_mod (360 - (- 5 - 1 / 2 ^ 50) + 180) 360 - 180\<bar>"
    by (rule ang_dist_exact_diff)
  have r4: "real_mod (360 - (- 5 - 1 / 2 ^ 50) + 180) 360 = 185 + 1 / 2 ^ 50"
    by (rule real_mod_unique [where k = 1]) simp_all
  have e: "ang_dist 360 (- 5 - 1 / 2 ^ 50) = 5 + 1 / 2 ^ 50"
    unfolding e0 r4 by simp
  show ?thesis unfolding s a using e by simp
qed

section \<open>Moving\<close>

lemma advance_fields:
  "x (advance a) = x a + cos (radians (direction a)) * speed a"
  "y (advance a) = y a + sin (radians (direction a)) * speed a"
  "direction (advance a) = direction a"
  "speed (advance a) = speed a"
  "turn_speed (advance a) = turn_speed a"
  "rect_w (rect (advance a)) = rect_w (rect a)"
  "rect_h (rect (advance a)) = rect_h (rect a)"
  by (simp_all add: advance_def Let_def set_center_def)

lemma after_boundary_x:
  "x (after_boundary a) = (if bounces_x a then x a else x (advance a))"
  by (simp add: after_boundary_def boundary_check_def bounces_x_def Let_def)

lemma after_boundary_y:
  "y (after_boundary a) = (if bounces_y a then y a else y (advance a))"
  by (simp add: after_boundary_def boundary_check_def bounces_y_def Let_def)

lemma after_boundary_direction:
  "direction (after_boundary a) =
     (let d1 = (if bounces_x a then 180 - direction a else direction a)
      in if bounces_y a then - d1 else d1)"
  by (simp add: after_boundary_def boundary_check_def bounces_x_def bounces_y_def Let_def
      advance_fields)

lemma after_boundary_rect:
  "rect (after_boundary a) =
     set_center (rect (advance a)) (py_int (x (after_boundary a)), py_int (y (after_boundary a)))"
  by (simp add: after_boundary_def boundary_check_def Let_def)

lemma after_boundary_other:
  "speed (after_boundary a) = speed a"
  "turn_speed (after_boundary a) = turn_speed a"
  "rect_w (rect (after_boundary a)) = rect_w (rect a)"
  "rect_h (rect (after_boundary a)) = rect_h (rect a)"
  by (simp_all add: after_boundary_def boundary_check_def Let_def set_center_def advance_fields)

lemma move_after_boundary:
  "move u obstacle_group a = obstacle_check (x a) (y a) u obstacle_group (after_boundary a)"
  by (simp add: move_def after_boundary_def Let_def)

lemma move_no_hit:
  "spritecollide (after_boundary a) obstacle_group = [] \<Longrightarrow>
   move u obstacle_group a = after_boundary a"
  by (simp add: move_after_boundary obstacle_check_def)

lemma move_hit:
  assumes "spritecollide (after_boundary a) obstacle_group \<noteq> []"
  shows "x (move u obstacle_group a) = x a"
    and "y (move u obstacle_group a) = y a"
    and "direction (move u obstacle_group a) = direction (after_boundary a) + uniform 90 270 u"
  using assms by (simp_all add: move_after_boundary obstacle_check_def Let_def)


lemma main_obstacles_clear:
  assumes "rect_w r = 5" "rect_h r = 5"
    and "rect_x r \<le> 95 \<or> 620 \<le> rect_x r \<or> rect_y r \<le> 95 \<or> 500 \<le> rect_y r"
  shows "filter (\<lambda>g. colliderect r (rect g)) main_obstacles = []"
  using assms
  by (auto simp: main_obstacles_def Obstacle_def get_rect_topleft_def colliderect_def)

lemma ex_corner_advance:
  "x (advance ex_corner_ant) = 1599 / 2 + sqrt 2 / 2 * (3 / 2) \<and>
   y (advance ex_corner_ant) = 1199 / 2 + sqrt 2 / 2 * (3 / 2)"
  by (simp add: advance_fields ex_corner_ant_def radians_def ANT_SPEED_def cos_45 sin_45)

lemma ex_corner_bounces: "bounces_x ex_corner_ant \<and> bounces_y ex_corner_ant"
proof -
  have s: "1 \<le> sqrt 2" by simp
  have "800 \<le> 1599 / 2 + sqrt 2 / 2 * (3 / 2)" using s by linarith
  moreover have "600 \<le> 1199 / 2 + sqrt 2 / 2 * (3 / 2)" using s by linarith
  ultimately show ?thesis
    by (simp only: bounces_x_def bounces_y_def ex_corner_advance SCREEN_WIDTH_def
        SCREEN_HEIGHT_def of_int_numeral) simp
qed

lemma ex_east_bounces: "bounces_x ex_east_ant \<and> \<not> bounces_y ex_east_ant"
  by (simp add: bounces_x_def bounces_y_def advance_fields ex_east_ant_def radians_def
      ANT_SPEED_def SCREEN_WIDTH_def SCREEN_HEIGHT_def)

lemma ex_east_after:
  "x (after_boundary ex_east_ant) = 799 \<and> y (after_boundary ex_east_ant) = 300"
proof -
  have "x (after_boundary ex_east_ant) = x ex_east_ant"
    using ex_east_bounces by (simp add: after_boundary_x)
  moreover have "y (after_boundary ex_east_ant) = y (advance ex_east_ant)"
    using ex_east_bounces by (simp add: after_boundary_y)
  ultimately show ?thesis
    by (simp add: advance_fields ex_east_ant_def radians_def)
qed

lemma ex_east_rect:
  "rect (after_boundary ex_east_ant) = \<lparr>rect_x = 797, rect_y = 298, rect_w = 5, rect_h = 5\<rparr>"
proof -
  have "rect (after_boundary ex_east_ant) =
      set_center (rect (advance ex_east_ant)) (py_int 799, py_int 300)"
    by (simp add: after_boundary_rect ex_east_after)
  also have "\<dots> = \<lparr>rect_x = 797, rect_y = 298, rect_w = 5, rect_h = 5\<rparr>"
    by (simp add: advance_def Let_def set_center_def ex_east_ant_def get_rect_center_def py_int_def)
  finally show ?thesis .
qed

lemma ex_east_clear: "spritecollide (after_boundary ex_east_ant) main_obstacles = []"
  unfolding spritecollide_def
  by (rule main_obstacles_clear) (simp_all add: ex_east_rect)

text \<open>
  Claim C6. The bounce at the boundary works per axis. When the advanced x is \<open>\<le> 0\<close> or
  \<open>\<ge>\<close> the screen width, x goes back to its value before the move and the heading \<open>h\<close>
  becomes \<open>180 - h\<close>; when the advanced y is \<open>\<le> 0\<close> or \<open>\<ge>\<close> the screen height, y goes back
  and the heading becomes its negative; an axis that is not violated keeps its advanced
  value; when both are violated both go back and the heading is \<open>- (180 - h)\<close>. This is
  the ant at the end of \<open>move\<close> whenever no obstacle is hit.
\<close>

theorem boundary_bounce:
  "(bounces_x a \<longrightarrow>
      x (after_boundary a) = x a \<and>
      (\<not> bounces_y a \<longrightarrow> direction (after_boundary a) = 180 - direction a)) \<and>
   (\<not> bounces_x a \<longrightarrow> x (after_boundary a) = x (advance a)) \<and>
   (bounces_y a \<longrightarrow>
      y (after_boundary a) = y a \<and>
      (\<not> bounces_x a \<longrightarrow> direction (after_boundary a) = - direction a)) \<and>
   (\<not> bounces_y a \<longrightarrow> y (after_boundary a) = y (advance a)) \<and>
   (bounces_x a \<and> bounces_y a \<longrightarrow> direction (after_boundary a) = - (180 - direction a)) \<and>
   (\<not> bounces_x a \<and> \<not> bounces_y a \<longrightarrow> direction (after_boundary a) = direction a) \<and>
   (spritecollide (after_boundary a) obstacle_group = [] \<longrightarrow>
      move u obstacle_group a = after_boundary a)"
  by (simp add: after_boundary_x after_boundary_y after_boundary_direction move_no_hit)

theorem boundary_bounce_witness:
  "bounces_x ex_east_ant \<and> \<not> bounces_y ex_east_ant \<and>
   x (move 0 main_obstacles ex_east_ant) = 799 \<and>
   y (move 0 main_obstacles ex_east_ant) = 300 \<and>
   direction (move 0 main_obstacles ex_east_ant) = 180 \<and>
   bounces_x ex_corner_ant \<and> bounces_y ex_corner_ant \<and>
   x (after_boundary ex_corner_ant) = 1599 / 2 \<and>
   y (after_boundary ex_corner_ant) = 1199 / 2 \<and>
   direction (after_boundary ex_corner_ant) = - 135"
proof -
  have e: "move 0 main_obstacles ex_east_ant = after_boundary ex_east_ant"
    using boundary_bounce [of ex_east_ant main_obstacles 0] ex_east_clear by blast
  have "x (after_boundary ex_east_ant) = 799 \<and> y (after_boundary ex_east_ant) = 300 \<and>
      direction (after_boundary ex_east_ant) = 180"
    using boundary_bounce [of ex_east_ant main_obstacles 0] ex_east_bounces
    by (simp add: advance_fields ex_east_ant_def radians_def)
  moreover have "x (after_boundary ex_corner_ant) = 1599 / 2 \<and>
      y (after_boundary ex_corner_ant) = 1199 / 2 \<and>
      direction (after_boundary ex_corner_ant) = - 135"
    using boundary_bounce [of ex_corner_ant main_obstacles 0] ex_corner_bounces
    by (simp add: ex_corner_ant_def)
  ultimately show ?thesis
    using e ex_east_bounces ex_corner_bounces by simp
qed


section \<open>Obstacles\<close>

lemma py_int_low: "0 \<le> v \<Longrightarrow> v < 2 \<Longrightarrow> py_int v \<le> 2"
  by (simp add: py_int_def floor_le_iff)

lemma py_int_high: "0 \<le> real_of_int k \<Longrightarrow> real_of_int k \<le> v \<Longrightarrow> k \<le> py_int v"
  by (simp add: py_int_def le_floor_iff)

lemma step_length:
  "\<bar>cos r * ANT_SPEED\<bar> \<le> 3 / 2" "\<bar>sin r * ANT_SPEED\<bar> \<le> 3 / 2"
proof -
  have "\<bar>cos r\<bar> \<le> 1" "\<bar>sin r\<bar> \<le> 1" by simp_all
  then show "\<bar>cos r * ANT_SPEED\<bar> \<le> 3 / 2" "\<bar>sin r * ANT_SPEED\<bar> \<le> 3 / 2"
    by (simp_all add: ANT_SPEED_def abs_mult)
qed

lemma bounce_x_near_edge:
  assumes "ant_ok a" "bounces_x a"
  shows "x a < 2 \<or> 798 \<le> x a"
proof -
  have "\<bar>cos (radians (direction a)) * ANT_SPEED\<bar> \<le> 3 / 2" by (rule step_length)
  then show ?thesis
    using assms by (auto simp: ant_ok_def bounces_x_def advance_fields SCREEN_WIDTH_def)
qed

lemma bounce_y_near_edge:
  assumes "ant_ok a" "bounces_y a"
  shows "y a < 2 \<or> 598 \<le> y a"
proof -
  have "\<bar>sin (radians (direction a)) * ANT_SPEED\<bar> \<le> 3 / 2" by (rule step_length)
  then show ?thesis
    using assms by (auto simp: ant_ok_def bounces_y_def advance_fields SCREEN_HEIGHT_def)
qed

lemma bounce_excludes_hit:
  assumes ok: "ant_ok a" and b: "bounces_x a \<or> bounces_y a"
  shows "spritecollide (after_boundary a) main_obstacles = []"
  unfolding spritecollide_def
proof (rule main_obstacles_clear)
  let ?r = "rect (after_boundary a)"
  show "rect_w ?r = 5" "rect_h ?r = 5"
    using ok by (simp_all add: after_boundary_other ant_ok_def)
  have rx: "rect_x ?r = py_int (x (after_boundary a)) - 2"
    using ok by (simp add: after_boundary_rect set_center_def advance_fields ant_ok_def)
  have ry: "rect_y ?r = py_int (y (after_boundary a)) - 2"
    using ok by (simp add: after_boundary_rect set_center_def advance_fields ant_ok_def)
  from b show "rect_x ?r \<le> 95 \<or> 620 \<le> rect_x ?r \<or> rect_y ?r \<le> 95 \<or> 500 \<le> rect_y ?r"
  proof
    assume bx: "bounces_x a"
    have xa: "x (after_boundary a) = x a" using bx by (simp add: after_boundary_x)
    from bounce_x_near_edge [OF ok bx] show ?thesis
    proof
      assume "x a < 2"
      then have "py_int (x a) \<le> 2" using ok by (intro py_int_low) (simp_all add: ant_ok_def)
      then show ?thesis using rx xa by simp
    next
      assume "798 \<le> x a"
      then have "798 \<le> py_int (x a)" by (intro py_int_high) simp_all
      then show ?thesis using rx xa by simp
    qed
  next
    assume bY: "bounces_y a"
    have ya: "y (after_boundary a) = y a" using bY by (simp add: after_boundary_y)
    from bounce_y_near_edge [OF ok bY] show ?thesis
    proof
      assume "y a < 2"
      then have "py_int (y a) \<le> 2" using ok by (intro py_int_low) (simp_all add: ant_ok_def)
      then show ?thesis using ry ya by simp
    next
      assume "598 \<le> y a"
      then have "598 \<le> py_int (y a)" by (intro py_int_high) simp_all
      then show ?thesis using ry ya by simp
    qed
  qed
qed

lemma bounce_is_final:
  "ant_ok a \<Longrightarrow> bounces_x a \<or> bounces_y a \<Longrightarrow>
   move u main_obstacles a = after_boundary a"
  by (simp add: bounce_excludes_hit move_no_hit)

text \<open>The deflection: \<open>uniform 90 270\<close> of a draw in \<open>[0, 1)\<close> lies between 90 and 270, both
  included, since each of the two roundings may reach the next double above.\<close>

lemma deflection_range:
  assumes "0 \<le> u" "u < 1"
  shows "90 \<le> uniform 90 270 u \<and> uniform 90 270 u \<le> 270"
proof -
  let ?p = "fl64 (180 * u)"
  have p0: "real_of_int 0 \<le> ?p" using assms by (intro fl64_ge) simp_all
  have p1: "?p \<le> real_of_int 180" using assms by (intro fl64_le) simp_all
  have "real_of_int 90 \<le> fl64 (90 + ?p)" using p0 p1 by (intro fl64_ge) simp_all
  moreover have "fl64 (90 + ?p) \<le> real_of_int 270" using p0 p1 by (intro fl64_le) simp_all
  ultimately show ?thesis by (simp add: uniform_def)
qed



lemma obstacle_response_any_group:
  assumes "0 \<le> u" and "u < 1"
    and "spritecollide (after_boundary a) obstacle_group \<noteq> []"
  shows "x (move u obstacle_group a) = x a \<and>
         y (move u obstacle_group a) = y a \<and>
         90 \<le> direction (move u obstacle_group a) - direction (after_boundary a) \<and>
         direction (move u obstacle_group a) - direction (after_boundary a) \<le> 270"
  using deflection_range [OF assms(1,2)] move_hit [OF assms(3), of u] by simp









section \<open>What every ant keeps\<close>

lemma obstacle_check_fields:
  "speed (obstacle_check ox oy u obs a) = speed a"
  "turn_speed (obstacle_check ox oy u obs a) = turn_speed a"
  "rect_w (rect (obstacle_check ox oy u obs a)) = rect_w (rect a)"
  "rect_h (rect (obstacle_check ox oy u obs a)) = rect_h (rect a)"
  by (simp_all add: obstacle_check_def Let_def set_center_def)

lemma ant_ok_move: "ant_ok a \<Longrightarrow> ant_ok (move u obstacle_group a)"
proof -
  assume ok: "ant_ok a"
  let ?b = "after_boundary a"
  have bx: "0 < x ?b \<and> x ?b < real_of_int SCREEN_WIDTH"
    using ok by (auto simp: after_boundary_x bounces_x_def ant_ok_def)
  have bY: "0 < y ?b \<and> y ?b < real_of_int SCREEN_HEIGHT"
    using ok by (auto simp: after_boundary_y bounces_y_def ant_ok_def)
  have "ant_ok ?b"
    using ok bx bY by (simp add: ant_ok_def after_boundary_other)
  then show ?thesis
  proof (cases "spritecollide ?b obstacle_group = []")
    case True
    with \<open>ant_ok ?b\<close> show ?thesis by (simp add: move_no_hit)
  next
    case False
    have "x (move u obstacle_group a) = x a" "y (move u obstacle_group a) = y a"
      using False by (simp_all add: move_hit)
    then show ?thesis
      using ok by (simp add: ant_ok_def move_after_boundary obstacle_check_fields after_boundary_other)
  qed
qed

lemma ant_ok_steer: "ant_ok a \<Longrightarrow> ant_ok (steer t a)"
  by (simp add: ant_ok_def steer_def Let_def)

lemma ant_ok_wander: "ant_ok a \<Longrightarrow> ant_ok (wander u a)"
  by (simp add: ant_ok_def wander_def)

lemma ant_ok_steer_or_wander: "ant_ok a \<Longrightarrow> ant_ok (steer_or_wander t u a)"
  by (cases t) (simp_all add: steer_or_wander_def ant_ok_steer ant_ok_wander)

lemma ant_ok_WorkerAnt:
  "\<bar>jx\<bar> \<le> 10 \<Longrightarrow> \<bar>jy\<bar> \<le> 10 \<Longrightarrow>
   ant_ok (WorkerAnt (centerx main_nest_rect + jx) (centery main_nest_rect + jy) nest u)"
  by (auto simp: ant_ok_def WorkerAnt_def get_rect_center_def set_center_def main_nest_rect_def
      centerx_def centery_def SCREEN_WIDTH_def SCREEN_HEIGHT_def)

lemma ant_ok_SoldierAnt:
  "\<bar>jx\<bar> \<le> 10 \<Longrightarrow> \<bar>jy\<bar> \<le> 10 \<Longrightarrow>
   ant_ok (SoldierAnt (centerx main_nest_rect + jx) (centery main_nest_rect + jy) u)"
  by (auto simp: ant_ok_def SoldierAnt_def get_rect_center_def set_center_def main_nest_rect_def
      centerx_def centery_def SCREEN_WIDTH_def SCREEN_HEIGHT_def)

lemma ant_ok_soldier_update: "ant_ok a \<Longrightarrow> ant_ok (soldier_update a d obstacle_group)"
  by (simp add: soldier_update_def ant_ok_move ant_ok_wander)

lemma worker_update_move:
  "fst (worker_update a d food_group pheromone_group obstacle_group) =
     move (deflect_u d) obstacle_group (worker_pre_move a d food_group pheromone_group)"
  by (simp add: worker_update_def worker_pre_move_def worker_target_def worker_decided_def
      Let_def split: prod.splits)

lemma ant_ok_worker_decided: "ant_ok a \<Longrightarrow> ant_ok (worker_decided a food_group pheromone_group)"
  by (simp add: worker_decided_def worker_decide_def drop_pheromone_def ant_ok_def Let_def)

lemma ant_ok_worker_update:
  "ant_ok a \<Longrightarrow> ant_ok (fst (worker_update a d food_group pheromone_group obstacle_group))"
  by (simp add: worker_update_move worker_pre_move_def ant_ok_move ant_ok_steer_or_wander
      ant_ok_worker_decided)



lemma move_cooldown: "pheromone_cooldown (move u obstacle_group a) = pheromone_cooldown a"
  by (simp add: move_def obstacle_check_def boundary_check_def advance_def Let_def)

lemma steer_or_wander_more:
  "state (steer_or_wander t u a) = state a"
  "pheromone_cooldown (steer_or_wander t u a) = pheromone_cooldown a"
  "x (steer_or_wander t u a) = x a"
  "y (steer_or_wander t u a) = y a"
  "rect (steer_or_wander t u a) = rect a"
  by (cases t; simp add: steer_or_wander_def steer_def wander_def Let_def)+



text \<open>Every ant of the set-up is such an ant when the jitter is within 10, as
  \<^verbatim>\<open>randint(-10, 10)\<close> draws it, and a step keeps this for every ant of the group.\<close>

lemma make_ant_ok:
  "\<bar>jitter_x d\<bar> \<le> 10 \<Longrightarrow> \<bar>jitter_y d\<bar> \<le> 10 \<Longrightarrow> any_ant_ok (make_ant P d)"
  by (simp add: any_ant_ok_def make_ant_def Let_def ant_ok_WorkerAnt ant_ok_SoldierAnt)

lemma main_setup_ok:
  "\<forall>i. \<bar>jitter_x (ad i)\<bar> \<le> 10 \<and> \<bar>jitter_y (ad i)\<bar> \<le> 10 \<Longrightarrow>
   list_all any_ant_ok (ants (main_setup P ad fd))"
  by (simp add: main_setup_def list_all_iff make_ant_ok)

lemma update_ant_ok:
  "any_ant_ok a \<Longrightarrow>
   any_ant_ok (fst (update_ant a d food_group pheromone_group obstacle_group))"
  by (cases a)
     (simp_all add: any_ant_ok_def case_prod_beta ant_ok_worker_update ant_ok_soldier_update)

lemma ant_group_update_ok:
  "list_all any_ant_ok ant_group \<Longrightarrow>
   list_all any_ant_ok
     (fst (ant_group_update rnd k ant_group food_group pheromone_group obstacle_group))"
proof (induction ant_group arbitrary: k food_group pheromone_group)
  case Nil
  then show ?case by simp
next
  case (Cons a rest)
  then show ?case
    by (simp add: case_prod_beta update_ant_ok del: update_ant.simps)
qed

lemma step_ok: "list_all any_ant_ok (ants s) \<Longrightarrow> list_all any_ant_ok (ants (step rnd s))"
  by (simp add: step_def case_prod_beta ant_group_update_ok)

lemma step_obstacles: "obstacles (step rnd s) = obstacles s"
  by (simp add: step_def case_prod_beta)

section \<open>Moves that touch nothing\<close>

lemma main_obstacles_clear_inside:
  assumes "rect_w r = 5" "rect_h r = 5"
    and "120 \<le> rect_x r" "rect_x r \<le> 595" "120 \<le> rect_y r" "rect_y r \<le> 475"
  shows "filter (\<lambda>g. colliderect r (rect g)) main_obstacles = []"
  using assms
  by (auto simp: main_obstacles_def Obstacle_def get_rect_topleft_def colliderect_def)

lemma py_int_between:
  assumes "0 \<le> v" "real_of_int lo \<le> v + 1 / 2" "v + 1 / 2 < real_of_int hi + 1"
  shows "lo \<le> py_int v \<and> py_int v \<le> hi"
proof -
  have "py_int v = \<lfloor>v + 1 / 2\<rfloor>" using assms(1) by (simp add: py_int_def)
  moreover have "lo \<le> \<lfloor>v + 1 / 2\<rfloor>" using assms(2) by (simp add: le_floor_iff)
  moreover have "\<lfloor>v + 1 / 2\<rfloor> \<le> hi" using assms(3) by linarith
  ultimately show ?thesis by simp
qed

lemma free_move:
  assumes ok: "ant_ok a"
    and inside: "125 \<le> x a" "x a \<le> 595" "125 \<le> y a" "y a \<le> 475"
  shows "\<not> bounces_x a \<and> \<not> bounces_y a \<and>
         spritecollide (after_boundary a) main_obstacles = []"
proof -
  have sp: "speed a = ANT_SPEED" using ok by (simp add: ant_ok_def)
  have cx: "\<bar>cos (radians (direction a)) * ANT_SPEED\<bar> \<le> 3 / 2" by (rule step_length)
  have cy: "\<bar>sin (radians (direction a)) * ANT_SPEED\<bar> \<le> 3 / 2" by (rule step_length)
  have ax: "123 \<le> x (advance a) \<and> x (advance a) < 597"
    using cx inside sp by (simp add: advance_fields) linarith
  have ay: "123 \<le> y (advance a) \<and> y (advance a) < 477"
    using cy inside sp by (simp add: advance_fields) linarith
  have nb: "\<not> bounces_x a \<and> \<not> bounces_y a"
    using ax ay by (simp add: bounces_x_def bounces_y_def SCREEN_WIDTH_def SCREEN_HEIGHT_def)
  let ?r = "rect (after_boundary a)"
  have px: "x (after_boundary a) = x (advance a)" using nb by (simp add: after_boundary_x)
  have pY: "y (after_boundary a) = y (advance a)" using nb by (simp add: after_boundary_y)
  have ix: "123 \<le> py_int (x (advance a)) \<and> py_int (x (advance a)) \<le> 597"
    using ax by (intro py_int_between) simp_all
  have iy: "123 \<le> py_int (y (advance a)) \<and> py_int (y (advance a)) \<le> 477"
    using ay by (intro py_int_between) simp_all
  have rx: "rect_x ?r = py_int (x (advance a)) - 2"
    using ok by (simp add: after_boundary_rect px set_center_def advance_fields ant_ok_def)
  have ry: "rect_y ?r = py_int (y (advance a)) - 2"
    using ok by (simp add: after_boundary_rect pY set_center_def advance_fields ant_ok_def)
  have "filter (\<lambda>g. colliderect ?r (rect g)) main_obstacles = []"
  proof (rule main_obstacles_clear_inside)
    show "rect_w ?r = 5" "rect_h ?r = 5"
      using ok by (simp_all add: after_boundary_other ant_ok_def)
    show "120 \<le> rect_x ?r" "rect_x ?r \<le> 595" using ix rx by simp_all
    show "120 \<le> rect_y ?r" "rect_y ?r \<le> 475" using iy ry by simp_all
  qed
  then show ?thesis using nb by (simp add: spritecollide_def)
qed

lemma free_move_direction:
  assumes "\<not> bounces_x a" "\<not> bounces_y a" "spritecollide (after_boundary a) obstacle_group = []"
  shows "direction (move u obstacle_group a) = direction a"
  using assms by (simp add: move_no_hit after_boundary_direction)

lemma ex_soldier_ok: "ant_ok ex_soldier"
  using ant_ok_SoldierAnt [of 0 0 0]
  by (simp add: ex_soldier_def main_nest_rect_def centerx_def centery_def
      SCREEN_WIDTH_def SCREEN_HEIGHT_def)

lemma hypot_zero: "hypot a 0 = \<bar>a\<bar>"
  by (simp add: hypot_def)

lemma atan2_axis: "dx < 0 \<Longrightarrow> atan2 0 dx = pi" "0 < dx \<Longrightarrow> atan2 0 dx = 0"
  by (simp_all add: atan2_def)

section \<open>The heading at the end of an update\<close>

text \<open>
  Claim C1. \<open>steer\<close> ends with \<^verbatim>\<open>self.direction %= 360\<close>, under the comment
  \<^verbatim>\<open># Keep direction between 0-360\<close>: the code means to keep the heading in that range. The
  other writes to the heading do not normalise it: the wander line of both updates adds
  \<^verbatim>\<open>uniform(-turn_speed, turn_speed)\<close>, the boundary check sets \<open>180 - direction\<close> and
  \<open>- direction\<close>, the obstacle check adds \<^verbatim>\<open>uniform(90, 270)\<close>, and the arrival at the nest adds
  180. A soldier created at the centre of the nest with heading 0 (the draw behind
  \<^verbatim>\<open>uniform(0, 360)\<close> is 0) whose wander draw is 0 moves freely and ends its first update with
  heading \<open>- 5\<close>, outside \<open>[0, 360)\<close>. And \<open>steer\<close> itself can end at 360, when it
  takes the remainder of a negative heading next to 0.
\<close>

theorem heading_leaves_range:
  "ex_soldier = SoldierAnt 400 300 0 \<and> direction ex_soldier = 0 \<and>
   direction (soldier_update ex_soldier ex_draws main_obstacles) = - 5 \<and>
   update_ant (Soldier ex_soldier) ex_draws [] [] main_obstacles =
     (Soldier (soldier_update ex_soldier ex_draws main_obstacles), [], []) \<and>
   \<not> (0 \<le> direction (soldier_update ex_soldier ex_draws main_obstacles) \<and>
      direction (soldier_update ex_soldier ex_draws main_obstacles) < 360)"
proof -
  let ?w = "wander (wander_u ex_draws) ex_soldier"
  have ok: "ant_ok ?w" by (rule ant_ok_wander) (rule ex_soldier_ok)
  have pos: "x ?w = 400 \<and> y ?w = 300"
    by (simp add: wander_def ex_soldier_def SoldierAnt_def)
  have "\<not> bounces_x ?w \<and> \<not> bounces_y ?w \<and> spritecollide (after_boundary ?w) main_obstacles = []"
    using pos by (intro free_move ok) simp_all
  then have "direction (move (deflect_u ex_draws) main_obstacles ?w) = direction ?w"
    by (intro free_move_direction) simp_all
  moreover have d0: "direction ex_soldier = 0"
    by (simp add: ex_soldier_def SoldierAnt_def uniform_def)
  moreover have "direction ?w = - 5"
    by (simp add: wander_def d0) (simp add: ex_soldier_def SoldierAnt_def ex_draws_def
        uniform_def ANT_TURN_SPEED_def)
  ultimately show ?thesis by (simp add: soldier_update_def ex_soldier_def)
qed

lemma ex_seeker_ok: "ant_ok ex_seeker"
  using ant_ok_WorkerAnt [of 0 0 main_nest_rect "1 / 128"]
  by (simp add: ex_seeker_def main_nest_rect_def centerx_def centery_def
      SCREEN_WIDTH_def SCREEN_HEIGHT_def)

lemma ex_seeker_target: "worker_target ex_seeker [ex_food] [] = Some (450, 300)"
proof -
  have "dist_to 400 300 ex_food = 50"
    by (simp add: dist_to_def ex_food_def Food_def get_rect_center_def set_center_def
        centerx_def centery_def hypot_zero)
  moreover have "\<not> colliderect (rect ex_seeker) (rect ex_food)"
    by (simp add: colliderect_def ex_seeker_def WorkerAnt_def ex_food_def Food_def
        get_rect_center_def set_center_def)
  moreover have "center (rect ex_food) = (450, 300)"
    by (simp add: center_def centerx_def centery_def ex_food_def Food_def get_rect_center_def
        set_center_def)
  moreover have "x ex_seeker = 400 \<and> y ex_seeker = 300 \<and> state ex_seeker = STATE_SEEKING_FOOD"
    by (simp add: ex_seeker_def WorkerAnt_def)
  ultimately show ?thesis
    by (simp add: worker_target_def worker_decide_def seek_target_def spritecollide_def Let_def)
qed

lemma ex_seeker_decided: "worker_decided ex_seeker [ex_food] [] = ex_seeker"
proof -
  have "\<not> colliderect (rect ex_seeker) (rect ex_food)"
    by (simp add: colliderect_def ex_seeker_def WorkerAnt_def ex_food_def Food_def
        get_rect_center_def set_center_def)
  moreover have "state ex_seeker = STATE_SEEKING_FOOD"
    by (simp add: ex_seeker_def WorkerAnt_def)
  ultimately show ?thesis
    by (simp add: worker_decided_def worker_decide_def spritecollide_def Let_def)
qed

section \<open>Arriving at the nest\<close>

lemma returning_decide:
  assumes "state a = STATE_RETURNING_TO_NEST" "colliderect (rect a) (nest_rect a)"
  shows "worker_target a food_group pheromone_group = Some (center (nest_rect a))"
    and "state (worker_decided a food_group pheromone_group) = STATE_SEEKING_FOOD"
    and "direction (worker_decided a food_group pheromone_group) = direction a + 180"
    and "turn_speed (worker_decided a food_group pheromone_group) = turn_speed a"
    and "rect (worker_decided a food_group pheromone_group) = rect a"
    and "x (worker_decided a food_group pheromone_group) = x a"
    and "y (worker_decided a food_group pheromone_group) = y a"
  using assms
  by (simp_all add: worker_target_def worker_decided_def worker_decide_def drop_pheromone_def
      Let_def STATE_RETURNING_TO_NEST_def STATE_SEEKING_FOOD_def)


lemma ex_home_worker2_facts:
  "state ex_home_worker2 = STATE_RETURNING_TO_NEST"
  "colliderect (rect ex_home_worker2) (nest_rect ex_home_worker2)"
  "turn_speed ex_home_worker2 = 5"
  "direction ex_home_worker2 = 2"
  "x ex_home_worker2 = 410" "y ex_home_worker2 = 300"
  "center (rect ex_home_worker2) = (410, 300)"
  "center (nest_rect ex_home_worker2) = (400, 300)"
  by (simp_all add: ex_home_worker2_def colliderect_def get_rect_center_def set_center_def
      main_nest_rect_def SCREEN_WIDTH_def SCREEN_HEIGHT_def ANT_TURN_SPEED_def center_def
      centerx_def centery_def)



text \<open>
  The bound on the steered heading needs the condition. A returning worker at \<open>(400, 290)\<close>,
  inside the nest, with the heading \<open>- 185 - 2\<^sup>-\<^sup>4\<^sup>5\<close> is rotated to \<open>- 5 - 2\<^sup>-\<^sup>4\<^sup>5\<close>; the
  centre of the nest lies at the angle 90, the heading is turned by 5 to \<open>- 2\<^sup>-\<^sup>4\<^sup>5\<close>, and
  its remainder by 360 rounds to 360, at the angular distance \<open>5 + 2\<^sup>-\<^sup>4\<^sup>5\<close> from the rotated
  heading.
\<close>

lemma ex_edge_worker_facts:
  "state ex_edge_worker = STATE_RETURNING_TO_NEST"
  "colliderect (rect ex_edge_worker) (nest_rect ex_edge_worker)"
  "turn_speed ex_edge_worker = 5"
  "direction ex_edge_worker = - 185 - 1 / 2 ^ 45"
  "center (rect ex_edge_worker) = (400, 290)"
  "center (nest_rect ex_edge_worker) = (400, 300)"
  by (simp_all add: ex_edge_worker_def colliderect_def get_rect_center_def set_center_def
      main_nest_rect_def SCREEN_WIDTH_def SCREEN_HEIGHT_def ANT_TURN_SPEED_def center_def
      centerx_def centery_def)

lemma nest_arrival_edge:
  "state ex_edge_worker = STATE_RETURNING_TO_NEST \<and>
   colliderect (rect ex_edge_worker) (nest_rect ex_edge_worker) \<and>
   turn_speed ex_edge_worker = ANT_TURN_SPEED \<and>
   direction (worker_decided ex_edge_worker [] []) = - 5 - 1 / 2 ^ 45 \<and>
   direction (worker_pre_move ex_edge_worker ex_draws [] []) = 360 \<and>
   ang_dist (direction (worker_pre_move ex_edge_worker ex_draws [] []))
     (direction ex_edge_worker + 180) = 5 + 1 / 2 ^ 45 \<and>
   \<not> ang_dist (direction (worker_pre_move ex_edge_worker ex_draws [] []))
       (direction ex_edge_worker + 180) \<le> turn_speed ex_edge_worker"
proof -
  let ?c = "worker_decided ex_edge_worker [] []"
  note dec = returning_decide [OF ex_edge_worker_facts(1,2), of "[]" "[]"]
  have dc: "direction ?c = - 5 - 1 / 2 ^ 45"
    unfolding dec(3) ex_edge_worker_facts by simp
  have ta: "get_angle_to (400, 290) (400, 300) = 90"
    by (simp add: get_angle_to_def atan2_def degrees_def)
  have p: "worker_pre_move ex_edge_worker ex_draws [] [] = steer 90 ?c"
    by (simp add: worker_pre_move_def dec steer_or_wander_def ex_edge_worker_facts ta)
  have "py_mod (275 + 1 / 2 ^ 45) 360 = 275 + 1 / 2 ^ 45"
    by (rule py_mod_id) simp_all
  moreover have "90 - direction ?c + 180 = 275 + 1 / 2 ^ 45"
    unfolding dc by simp
  ultimately have d: "py_mod (90 - direction ?c + 180) 360 = 275 + 1 / 2 ^ 45"
    by presburger
  have ts: "turn_speed ?c = 5" by (simp add: dec ex_edge_worker_facts)
  have t: "turned_heading 90 ?c = - (1 / 2 ^ 45)"
    unfolding turned_heading_def Let_def d by (simp add: dc ts)
  have r2: "real_mod (- (1 / 2 ^ 45)) 360 = 360 - 1 / 2 ^ 45"
    by (rule real_mod_unique [where k = "- 1"]) simp_all
  have "py_mod (- (1 / 2 ^ 45)) 360 = fl64 (real_mod (- (1 / 2 ^ 45)) 360)"
    by (rule py_mod_neg) simp
  then have s: "direction (steer 90 ?c) = 360"
    unfolding steer_turned t r2 fl64_tie_360 .
  have e0: "ang_dist 360 (- 185 - 1 / 2 ^ 45 + 180) =
      \<bar>real_mod (360 - (- 185 - 1 / 2 ^ 45 + 180) + 180) 360 - 180\<bar>"
    by (rule ang_dist_exact_diff)
  have r4: "real_mod (360 - (- 185 - 1 / 2 ^ 45 + 180) + 180) 360 = 185 + 1 / 2 ^ 45"
    by (rule real_mod_unique [where k = 1]) simp_all
  have e: "ang_dist 360 (- 185 - 1 / 2 ^ 45 + 180) = 5 + 1 / 2 ^ 45"
    unfolding e0 r4 by simp
  have ts0: "turn_speed ex_edge_worker = ANT_TURN_SPEED"
    by (simp add: ex_edge_worker_def)
  show ?thesis
    unfolding p s ex_edge_worker_facts(4) e
    using ex_edge_worker_facts(1,2) ts0 dc by (simp add: ANT_TURN_SPEED_def)
qed








section \<open>The target of a seeking worker\<close>

lemma first_smelled_None:
  "first_smelled ax ay ps = None \<longleftrightarrow> (\<forall>p\<in>set ps. \<not> dist_to ax ay p < 50)"
  by (induction ps) auto

lemma first_smelled_Some:
  "first_smelled ax ay ps = Some p \<Longrightarrow>
   \<exists>qs rs. ps = qs @ p # rs \<and> (\<forall>q\<in>set qs. \<not> dist_to ax ay q < 50) \<and> dist_to ax ay p < 50"
proof (induction ps)
  case Nil
  then show ?case by simp
next
  case (Cons q ps)
  show ?case
  proof (cases "dist_to ax ay q < 50")
    case True
    with Cons.prems have "q = p" by simp
    with True have "q # ps = [] @ p # ps \<and> (\<forall>q\<in>set []. \<not> dist_to ax ay q < 50) \<and>
        dist_to ax ay p < 50" by simp
    then show ?thesis by blast
  next
    case False
    with Cons.prems have "first_smelled ax ay ps = Some p" by simp
    from Cons.IH [OF this] obtain qs rs where
      h: "ps = qs @ p # rs" "\<forall>q\<in>set qs. \<not> dist_to ax ay q < 50" "dist_to ax ay p < 50"
      by blast
    have "q # ps = (q # qs) @ p # rs \<and> (\<forall>q'\<in>set (q # qs). \<not> dist_to ax ay q' < 50) \<and>
        dist_to ax ay p < 50"
      using h False by simp
    then show ?thesis by blast
  qed
qed

lemma py_min_by_in: "py_min_by k best fs \<in> set (best # fs)"
  by (induction fs arbitrary: best) (auto split: if_splits)

lemma py_min_by_le_best: "k (py_min_by k best fs) \<le> k best"
proof (induction fs arbitrary: best)
  case Nil
  then show ?case by simp
next
  case (Cons f fs)
  show ?case
    using Cons.IH [of "if k f < k best then f else best"] by (simp split: if_splits)
qed

lemma py_min_by_least: "g \<in> set (best # fs) \<Longrightarrow> k (py_min_by k best fs) \<le> k g"
proof (induction fs arbitrary: best)
  case Nil
  then show ?case by simp
next
  case (Cons f fs)
  let ?b = "if k f < k best then f else best"
  have b: "k ?b \<le> k best \<and> k ?b \<le> k f" by simp
  from Cons.prems consider "g = best" | "g = f" | "g \<in> set fs" by auto
  then show ?case
  proof cases
    case 1
    then show ?thesis using py_min_by_le_best [of k ?b fs] b by simp
  next
    case 2
    then show ?thesis using py_min_by_le_best [of k ?b fs] b by simp
  next
    case 3
    then show ?thesis using Cons.IH [of ?b] by simp
  qed
qed

lemma seeking_decide:
  assumes "state a = STATE_SEEKING_FOOD"
  shows "worker_target a food_group pheromone_group = seek_target a food_group pheromone_group"
    and "direction (worker_decided a food_group pheromone_group) = direction a"
    and "turn_speed (worker_decided a food_group pheromone_group) = turn_speed a"
    and "rect (worker_decided a food_group pheromone_group) = rect a"
    and "pheromone_cooldown (worker_decided a food_group pheromone_group) = pheromone_cooldown a"
  using assms
  by (simp_all add: worker_target_def worker_decided_def worker_decide_def Let_def)

lemma seek_target_smelled:
  assumes "\<exists>p\<in>set pheromone_group. dist_to (x a) (y a) p < 50"
  shows "\<exists>qs p rs. pheromone_group = qs @ p # rs \<and>
           (\<forall>q\<in>set qs. \<not> dist_to (x a) (y a) q < 50) \<and> dist_to (x a) (y a) p < 50 \<and>
           seek_target a food_group pheromone_group = Some (center (rect p))"
proof -
  from assms obtain p where p: "first_smelled (x a) (y a) pheromone_group = Some p"
    using first_smelled_None [of "x a" "y a" pheromone_group] by fastforce
  from first_smelled_Some [OF p] obtain qs rs where
    "pheromone_group = qs @ p # rs" "\<forall>q\<in>set qs. \<not> dist_to (x a) (y a) q < 50"
    "dist_to (x a) (y a) p < 50" by blast
  moreover have "seek_target a food_group pheromone_group = Some (center (rect p))"
    by (simp add: seek_target_def p)
  ultimately show ?thesis by blast
qed

lemma seek_target_food:
  assumes none: "\<forall>p\<in>set pheromone_group. \<not> dist_to (x a) (y a) p < 50"
    and some: "food_group \<noteq> []"
  shows "\<exists>f\<in>set food_group.
           (\<forall>g\<in>set food_group. dist_to (x a) (y a) f \<le> dist_to (x a) (y a) g) \<and>
           seek_target a food_group pheromone_group =
             (if dist_to (x a) (y a) f < 100 then Some (center (rect f)) else None)"
proof -
  from some obtain f0 fs where fg: "food_group = f0 # fs" by (cases food_group) auto
  let ?f = "py_min_by (dist_to (x a) (y a)) f0 fs"
  have n: "first_smelled (x a) (y a) pheromone_group = None"
    using none by (simp add: first_smelled_None)
  have "?f \<in> set food_group" unfolding fg by (rule py_min_by_in)
  moreover have "\<forall>g\<in>set food_group. dist_to (x a) (y a) ?f \<le> dist_to (x a) (y a) g"
    unfolding fg using py_min_by_least [of _ f0 fs "dist_to (x a) (y a)"] by blast
  moreover have "seek_target a food_group pheromone_group =
      (if dist_to (x a) (y a) ?f < 100 then Some (center (rect ?f)) else None)"
    by (simp add: seek_target_def n fg Let_def)
  ultimately show ?thesis by blast
qed

lemma seek_target_nothing:
  assumes "\<forall>p\<in>set pheromone_group. \<not> dist_to (x a) (y a) p < 50"
  shows "seek_target a [] pheromone_group = None"
proof -
  have "first_smelled (x a) (y a) pheromone_group = None"
    using assms by (simp add: first_smelled_None)
  then show ?thesis by (simp add: seek_target_def)
qed

lemma seeking_decided:
  assumes "state a = STATE_SEEKING_FOOD"
  shows "worker_decided a food_group pheromone_group =
     (if spritecollide a food_group \<noteq> [] then a\<lparr>state := STATE_RETURNING_TO_NEST\<rparr> else a)"
  using assms by (simp add: worker_decided_def worker_decide_def Let_def)

lemma worker_update_steers:
  assumes "worker_target a food_group pheromone_group = Some t"
    and "rect (worker_decided a food_group pheromone_group) = rect a"
  shows "fst (worker_update a d food_group pheromone_group obstacle_group) =
     move (deflect_u d) obstacle_group
       (steer (get_angle_to (center (rect a)) t) (worker_decided a food_group pheromone_group))"
  using assms by (simp add: worker_update_move worker_pre_move_def steer_or_wander_def)

lemma worker_update_wanders:
  assumes "worker_target a food_group pheromone_group = None"
  shows "fst (worker_update a d food_group pheromone_group obstacle_group) =
     move (deflect_u d) obstacle_group
       (wander (wander_u d) (worker_decided a food_group pheromone_group))"
  using assms by (simp add: worker_update_move worker_pre_move_def steer_or_wander_def)

text \<open>
  Claim C5. The update of a seeking worker, \<open>worker_update\<close>, which is what \<open>update_ant\<close>
  runs for a worker: if some pheromone is closer than 50, the target is the centre of the
  first such marker in the order of the group, whatever the food, and the worker that
  leaves the update is the one that has steered towards this centre and then moved;
  otherwise, if the food group is not empty, the entry of least distance is taken, and
  when its distance is below 100 the worker steers towards its centre and moves, else it
  wanders (its heading grows by \<open>uniform(-turn_speed, turn_speed)\<close>) and moves; with no
  pheromone that close and no food the worker wanders and moves. The worker that steers or
  wanders is the worker of before, in the state of returning when its rectangle hits a
  food pile. Distances are taken to the centres of the rectangles, and both thresholds
  are strict, as in the source.
\<close>

theorem seeking_target_selection:
  assumes "state a = STATE_SEEKING_FOOD"
  shows
    "fst (update_ant (Worker a) d food_group pheromone_group obstacle_group) =
       Worker (fst (worker_update a d food_group pheromone_group obstacle_group)) \<and>
     worker_decided a food_group pheromone_group =
       (if spritecollide a food_group \<noteq> [] then a\<lparr>state := STATE_RETURNING_TO_NEST\<rparr> else a) \<and>
     ((\<exists>p\<in>set pheromone_group. dist_to (x a) (y a) p < 50) \<longrightarrow>
        (\<exists>qs p rs. pheromone_group = qs @ p # rs \<and>
           (\<forall>q\<in>set qs. \<not> dist_to (x a) (y a) q < 50) \<and> dist_to (x a) (y a) p < 50 \<and>
           worker_target a food_group pheromone_group = Some (center (rect p)) \<and>
           fst (worker_update a d food_group pheromone_group obstacle_group) =
             move (deflect_u d) obstacle_group
               (steer (get_angle_to (center (rect a)) (center (rect p)))
                  (worker_decided a food_group pheromone_group)))) \<and>
     ((\<forall>p\<in>set pheromone_group. \<not> dist_to (x a) (y a) p < 50) \<and> food_group \<noteq> [] \<longrightarrow>
        (\<exists>f\<in>set food_group.
           (\<forall>g\<in>set food_group. dist_to (x a) (y a) f \<le> dist_to (x a) (y a) g) \<and>
           worker_target a food_group pheromone_group =
             (if dist_to (x a) (y a) f < 100 then Some (center (rect f)) else None) \<and>
           fst (worker_update a d food_group pheromone_group obstacle_group) =
             move (deflect_u d) obstacle_group
               (if dist_to (x a) (y a) f < 100
                then steer (get_angle_to (center (rect a)) (center (rect f)))
                       (worker_decided a food_group pheromone_group)
                else wander (wander_u d) (worker_decided a food_group pheromone_group)))) \<and>
     ((\<forall>p\<in>set pheromone_group. \<not> dist_to (x a) (y a) p < 50) \<and> food_group = [] \<longrightarrow>
        worker_target a food_group pheromone_group = None \<and>
        fst (worker_update a d food_group pheromone_group obstacle_group) =
          move (deflect_u d) obstacle_group (wander (wander_u d) a)) \<and>
     (worker_target a food_group pheromone_group = None \<longrightarrow>
        direction (worker_pre_move a d food_group pheromone_group) =
          direction a + uniform (- turn_speed a) (turn_speed a) (wander_u d)) \<and>
     (\<forall>t. worker_target a food_group pheromone_group = Some t \<longrightarrow>
        direction (worker_pre_move a d food_group pheromone_group) =
          direction (steer (get_angle_to (center (rect a)) t) a))"
proof -
  let ?c = "worker_decided a food_group pheromone_group"
  let ?u = "fst (worker_update a d food_group pheromone_group obstacle_group)"
  note dec = seeking_decide [OF assms, of food_group pheromone_group]
  have 0: "fst (update_ant (Worker a) d food_group pheromone_group obstacle_group) = Worker ?u"
    by (simp add: case_prod_beta)
  have c: "?c = (if spritecollide a food_group \<noteq> [] then a\<lparr>state := STATE_RETURNING_TO_NEST\<rparr>
      else a)"
    by (rule seeking_decided [OF assms])
  have 1: "\<exists>qs p rs. pheromone_group = qs @ p # rs \<and>
           (\<forall>q\<in>set qs. \<not> dist_to (x a) (y a) q < 50) \<and> dist_to (x a) (y a) p < 50 \<and>
           worker_target a food_group pheromone_group = Some (center (rect p)) \<and>
           ?u = move (deflect_u d) obstacle_group
               (steer (get_angle_to (center (rect a)) (center (rect p))) ?c)"
    if "\<exists>p\<in>set pheromone_group. dist_to (x a) (y a) p < 50"
  proof -
    from seek_target_smelled [OF that, of food_group] obtain qs p rs where
      h: "pheromone_group = qs @ p # rs" "\<forall>q\<in>set qs. \<not> dist_to (x a) (y a) q < 50"
        "dist_to (x a) (y a) p < 50"
        "seek_target a food_group pheromone_group = Some (center (rect p))"
      by blast
    have t: "worker_target a food_group pheromone_group = Some (center (rect p))"
      unfolding dec(1) by (rule h(4))
    have "?u = move (deflect_u d) obstacle_group
        (steer (get_angle_to (center (rect a)) (center (rect p))) ?c)"
      by (rule worker_update_steers [OF t dec(4)])
    with h(1-3) t show ?thesis by blast
  qed
  have 2: "\<exists>f\<in>set food_group.
           (\<forall>g\<in>set food_group. dist_to (x a) (y a) f \<le> dist_to (x a) (y a) g) \<and>
           worker_target a food_group pheromone_group =
             (if dist_to (x a) (y a) f < 100 then Some (center (rect f)) else None) \<and>
           ?u = move (deflect_u d) obstacle_group
               (if dist_to (x a) (y a) f < 100
                then steer (get_angle_to (center (rect a)) (center (rect f))) ?c
                else wander (wander_u d) ?c)"
    if "(\<forall>p\<in>set pheromone_group. \<not> dist_to (x a) (y a) p < 50) \<and> food_group \<noteq> []"
  proof -
    from seek_target_food [of pheromone_group a food_group] that obtain f where
      h: "f \<in> set food_group"
        "\<forall>g\<in>set food_group. dist_to (x a) (y a) f \<le> dist_to (x a) (y a) g"
        "seek_target a food_group pheromone_group =
           (if dist_to (x a) (y a) f < 100 then Some (center (rect f)) else None)"
      by blast
    have t: "worker_target a food_group pheromone_group =
        (if dist_to (x a) (y a) f < 100 then Some (center (rect f)) else None)"
      unfolding dec(1) by (rule h(3))
    have "?u = move (deflect_u d) obstacle_group
        (if dist_to (x a) (y a) f < 100
         then steer (get_angle_to (center (rect a)) (center (rect f))) ?c
         else wander (wander_u d) ?c)"
    proof (cases "dist_to (x a) (y a) f < 100")
      case True
      then have "worker_target a food_group pheromone_group = Some (center (rect f))"
        using t by simp
      from worker_update_steers [OF this dec(4)] True show ?thesis by simp
    next
      case False
      then have "worker_target a food_group pheromone_group = None"
        using t by simp
      from worker_update_wanders [OF this] False show ?thesis by simp
    qed
    with h(1,2) t show ?thesis by blast
  qed
  have 3: "worker_target a food_group pheromone_group = None \<and>
        ?u = move (deflect_u d) obstacle_group (wander (wander_u d) a)"
    if "(\<forall>p\<in>set pheromone_group. \<not> dist_to (x a) (y a) p < 50) \<and> food_group = []"
  proof -
    have t: "worker_target a food_group pheromone_group = None"
      unfolding dec(1) using seek_target_nothing [of pheromone_group a] that by simp
    have fe: "food_group = []" using that by simp
    have "?c = a" by (subst c) (simp add: fe spritecollide_def)
    with worker_update_wanders [OF t, of d obstacle_group] t show ?thesis by simp
  qed
  have 4: "worker_target a food_group pheromone_group = None \<Longrightarrow>
      direction (worker_pre_move a d food_group pheromone_group) =
        direction a + uniform (- turn_speed a) (turn_speed a) (wander_u d)"
    by (simp add: worker_pre_move_def steer_or_wander_def wander_def dec)
  have 5: "\<And>t. worker_target a food_group pheromone_group = Some t \<Longrightarrow>
      direction (worker_pre_move a d food_group pheromone_group) =
        direction (steer (get_angle_to (center (rect a)) t) a)"
  proof -
    fix t
    assume t: "worker_target a food_group pheromone_group = Some t"
    have "worker_pre_move a d food_group pheromone_group =
        steer (get_angle_to (center (rect a)) t) (worker_decided a food_group pheromone_group)"
      by (simp add: worker_pre_move_def t steer_or_wander_def dec)
    then show "direction (worker_pre_move a d food_group pheromone_group) =
        direction (steer (get_angle_to (center (rect a)) t) a)"
      using steer_direction_only [of "worker_decided a food_group pheromone_group" a]
      by (simp add: dec)
  qed
  show ?thesis using 0 c 1 2 3 4 5 by blast
qed

lemma ex_trail_dist:
  "dist_to 400 300 (Pheromone 430 300) = 30"
  "dist_to 400 300 (Pheromone 410 300) = 10"
  "center (rect (Pheromone 430 300)) = (430, 300)"
  by (simp_all add: dist_to_def Pheromone_def get_rect_center_def set_center_def py_int_def
      centerx_def centery_def center_def hypot_zero)

lemma ex_seeker_facts:
  "state ex_seeker = STATE_SEEKING_FOOD"
  "x ex_seeker = 400" "y ex_seeker = 300"
  "direction ex_seeker = 45 / 16" "turn_speed ex_seeker = 5"
  "speed ex_seeker = 3 / 2"
  "center (rect ex_seeker) = (400, 300)"
  by (simp_all add: ex_seeker_def WorkerAnt_def uniform_def ANT_TURN_SPEED_def ANT_SPEED_def
      fl64_seeker center_def centerx_def centery_def get_rect_center_def set_center_def)

lemma ex_seeker_steered:
  "direction (steer (get_angle_to (center (rect ex_seeker)) (430, 300)) ex_seeker) = 0"
proof -
  have a: "get_angle_to (400, 300) (430, 300) = 0"
    by (simp add: get_angle_to_def atan2_axis degrees_def)
  have m: "py_mod (0 - 45 / 16 + 180) 360 = 0 - 45 / 16 + 180"
    by (rule py_mod_id) simp_all
  have "turned_heading 0 ex_seeker = 0"
    unfolding turned_heading_def Let_def ex_seeker_facts m by simp
  then show ?thesis
    by (simp add: steer_turned ex_seeker_facts a py_mod_id)
qed

lemma ex_seeker_moved:
  assumes "b = steer t ex_seeker" "direction b = 0"
  shows "x (move u main_obstacles b) = 803 / 2 \<and> y (move u main_obstacles b) = 300 \<and>
         direction (move u main_obstacles b) = 0"
proof -
  have ok: "ant_ok b" unfolding assms(1) by (rule ant_ok_steer) (rule ex_seeker_ok)
  have f: "x b = 400" "y b = 300" "speed b = 3 / 2"
    by (simp_all add: assms(1) steer_def Let_def ex_seeker_facts)
  have fr: "\<not> bounces_x b \<and> \<not> bounces_y b \<and> spritecollide (after_boundary b) main_obstacles = []"
    by (intro free_move ok) (simp_all add: f)
  then have m: "move u main_obstacles b = after_boundary b" by (simp add: move_no_hit)
  show ?thesis
    using fr by (simp add: m after_boundary_x after_boundary_y after_boundary_direction
        advance_fields f assms(2) radians_def)
qed

theorem seeking_target_selection_witness:
  "state ex_seeker = STATE_SEEKING_FOOD \<and>
   dist_to (x ex_seeker) (y ex_seeker) (Pheromone 430 300) = 30 \<and>
   dist_to (x ex_seeker) (y ex_seeker) (Pheromone 410 300) = 10 \<and>
   worker_target ex_seeker [ex_food] ex_trail = Some (430, 300) \<and>
   direction ex_seeker = 45 / 16 \<and>
   direction (fst (worker_update ex_seeker ex_draws [ex_food] ex_trail main_obstacles)) = 0 \<and>
   x (fst (worker_update ex_seeker ex_draws [ex_food] ex_trail main_obstacles)) = 803 / 2 \<and>
   y (fst (worker_update ex_seeker ex_draws [ex_food] ex_trail main_obstacles)) = 300 \<and>
   fst (update_ant (Worker ex_seeker) ex_draws [ex_food] ex_trail main_obstacles) =
     Worker (fst (worker_update ex_seeker ex_draws [ex_food] ex_trail main_obstacles)) \<and>
   worker_target ex_seeker [] [] = None \<and>
   fst (worker_update ex_seeker ex_draws [] [] main_obstacles) =
     move 0 main_obstacles (ex_seeker\<lparr>direction := - (35 / 16)\<rparr>) \<and>
   direction (fst (worker_update ex_seeker ex_draws [] [] main_obstacles)) = - (35 / 16)"
proof -
  have h: "state ex_seeker = STATE_SEEKING_FOOD" by (rule ex_seeker_facts)
  note sel = seeking_target_selection [OF h]
  let ?u = "fst (worker_update ex_seeker ex_draws [ex_food] ex_trail main_obstacles)"
  have nc: "spritecollide ex_seeker [ex_food] = []"
    by (simp add: spritecollide_def colliderect_def ex_seeker_def WorkerAnt_def ex_food_def
        Food_def get_rect_center_def set_center_def)
  have dc: "worker_decided ex_seeker [ex_food] ex_trail = ex_seeker"
    using sel [of ex_draws "[ex_food]" ex_trail main_obstacles] nc by simp
  have "\<exists>p\<in>set ex_trail. dist_to (x ex_seeker) (y ex_seeker) p < 50"
    by (simp add: ex_trail_def ex_seeker_facts ex_trail_dist)
  with sel [of ex_draws "[ex_food]" ex_trail main_obstacles] obtain qs p rs where
    t: "ex_trail = qs @ p # rs" "\<forall>q\<in>set qs. \<not> dist_to (x ex_seeker) (y ex_seeker) q < 50"
      "worker_target ex_seeker [ex_food] ex_trail = Some (center (rect p))"
      "?u = move (deflect_u ex_draws) main_obstacles
         (steer (get_angle_to (center (rect ex_seeker)) (center (rect p)))
            (worker_decided ex_seeker [ex_food] ex_trail))"
    by blast
  have "qs = []"
  proof (cases qs)
    case Nil
    then show ?thesis .
  next
    case (Cons q qs')
    with t(1) have "q = Pheromone 430 300" by (simp add: ex_trail_def)
    with t(2) Cons show ?thesis by (simp add: ex_seeker_facts ex_trail_dist)
  qed
  with t(1) have p: "p = Pheromone 430 300" by (simp add: ex_trail_def)
  with t(3) have a: "worker_target ex_seeker [ex_food] ex_trail = Some (430, 300)"
    by (simp add: ex_trail_dist)
  have u: "?u = move (deflect_u ex_draws) main_obstacles
      (steer (get_angle_to (center (rect ex_seeker)) (430, 300)) ex_seeker)"
    using t(4) by (simp add: p dc ex_trail_dist)
  have m: "x ?u = 803 / 2 \<and> y ?u = 300 \<and> direction ?u = 0"
    unfolding u by (rule ex_seeker_moved [OF refl ex_seeker_steered])
  have w: "fst (update_ant (Worker ex_seeker) ex_draws [ex_food] ex_trail main_obstacles) =
      Worker ?u"
    using sel [of ex_draws "[ex_food]" ex_trail main_obstacles] by blast
  have b: "worker_target ex_seeker [] [] = None \<and>
      fst (worker_update ex_seeker ex_draws [] [] main_obstacles) =
        move (deflect_u ex_draws) main_obstacles (wander (wander_u ex_draws) ex_seeker)"
    using sel [of ex_draws "[]" "[]" main_obstacles] by simp
  have wd: "wander (wander_u ex_draws) ex_seeker = ex_seeker\<lparr>direction := - (35 / 16)\<rparr>"
    by (simp add: wander_def ex_seeker_facts ex_draws_def uniform_def)
  have ok: "ant_ok (ex_seeker\<lparr>direction := - (35 / 16)\<rparr>)"
    using ex_seeker_ok by (simp add: ant_ok_def)
  have "\<not> bounces_x (ex_seeker\<lparr>direction := - (35 / 16)\<rparr>) \<and>
      \<not> bounces_y (ex_seeker\<lparr>direction := - (35 / 16)\<rparr>) \<and>
      spritecollide (after_boundary (ex_seeker\<lparr>direction := - (35 / 16)\<rparr>)) main_obstacles = []"
    by (intro free_move ok) (simp_all add: ex_seeker_facts)
  then have fd: "direction (move 0 main_obstacles (ex_seeker\<lparr>direction := - (35 / 16)\<rparr>)) =
      - (35 / 16)"
    by (simp add: free_move_direction)
  have d0: "deflect_u ex_draws = 0" by (simp add: ex_draws_def)
  show ?thesis
    using h a m w b fd by (simp add: wd d0 ex_seeker_facts ex_trail_dist)
qed

section \<open>The life of a pheromone\<close>

lemma pheromone_group_update_append:
  "pheromone_group_update (F @ G) = pheromone_group_update F @ pheromone_group_update G"
  by (induction F) (simp_all split: option.splits)

lemma decay_pow_append:
  "(pheromone_group_update ^^ n) (F @ G) =
     (pheromone_group_update ^^ n) F @ (pheromone_group_update ^^ n) G"
  by (induction n) (simp_all add: pheromone_group_update_append)

lemma decay_pow_single:
  "0 < strength p \<Longrightarrow>
   (pheromone_group_update ^^ n) [p] =
     (if int n < strength p then [p\<lparr>strength := strength p - int n\<rparr>] else [])"
proof (induction n)
  case 0
  then show ?case by simp
next
  case (Suc n)
  then show ?case
    by (auto simp: pheromone_update_def Let_def)
qed

lemma field_run_append:
  "field_run (F @ G) dss = (pheromone_group_update ^^ length dss) F @ field_run G dss"
proof (induction dss arbitrary: F G)
  case Nil
  then show ?case by simp
next
  case (Cons ds dss)
  have "field_run (F @ G) (ds # dss) =
      field_run (pheromone_group_update F @ pheromone_group_update (G @ ds)) dss"
    by (simp add: pheromone_group_update_append)
  also have "\<dots> = (pheromone_group_update ^^ length dss) (pheromone_group_update F) @
      field_run (pheromone_group_update (G @ ds)) dss"
    by (rule Cons.IH)
  finally show ?case by (simp add: funpow_swap1)
qed

lemma decay_pow_Nil: "(pheromone_group_update ^^ n) [] = []"
  by (induction n) simp_all

lemma field_run_quiet: "field_run [] (replicate n []) = []"
  by (induction n) simp_all

lemma pheromone_group_update_alive: "p \<in> set (pheromone_group_update F) \<Longrightarrow> 0 < strength p"
  by (induction F) (auto simp: pheromone_update_def Let_def split: if_splits)

lemma field_reachable_alive: "field_reachable F \<Longrightarrow> p \<in> set F \<Longrightarrow> 0 < strength p"
proof (induction arbitrary: p rule: field_reachable.induct)
  case empty
  then show ?case by simp
next
  case (deposit field px py)
  then show ?case by (auto simp: Pheromone_def PHEROMONE_STRENGTH_def)
next
  case (decay field)
  then show ?case by (simp add: pheromone_group_update_alive)
qed

lemma first_smelled_in: "first_smelled ax ay F = Some q \<Longrightarrow> q \<in> set F"
  by (induction F) (auto split: if_splits)

lemma drop_pheromone_field:
  "snd (drop_pheromone pheromone_group a) =
     (if pheromone_cooldown a \<le> 0 then pheromone_group @ [Pheromone (x a) (y a)]
      else pheromone_group)"
  by (simp add: drop_pheromone_def)

lemma worker_update_field:
  "snd (snd (worker_update a d food_group pheromone_group obstacle_group)) =
     (if state a = STATE_RETURNING_TO_NEST \<and> pheromone_cooldown a \<le> 0
      then pheromone_group @ [Pheromone (x a) (y a)] else pheromone_group)"
  by (simp add: worker_update_def worker_decide_def drop_pheromone_def Let_def
      STATE_RETURNING_TO_NEST_def STATE_SEEKING_FOOD_def split: prod.splits)

lemma update_ant_reachable:
  "field_reachable pheromone_group \<Longrightarrow>
   field_reachable (snd (snd (update_ant a d food_group pheromone_group obstacle_group)))"
proof (cases a)
  case (Worker w)
  assume r: "field_reachable pheromone_group"
  have "snd (snd (update_ant a d food_group pheromone_group obstacle_group)) =
      snd (snd (worker_update w d food_group pheromone_group obstacle_group))"
    by (simp add: Worker split: prod.splits)
  then show ?thesis
    using r by (simp add: worker_update_field field_reachable.deposit)
next
  case (Soldier w)
  assume "field_reachable pheromone_group"
  then show ?thesis by (simp add: Soldier)
qed

lemma ant_group_update_reachable:
  "field_reachable pheromone_group \<Longrightarrow>
   field_reachable
     (snd (snd (ant_group_update rnd k ant_group food_group pheromone_group obstacle_group)))"
proof (induction ant_group arbitrary: k food_group pheromone_group)
  case Nil
  then show ?case by simp
next
  case (Cons a rest)
  obtain a' fg1 pg1 where u: "update_ant a (rnd k) food_group pheromone_group obstacle_group =
      (a', fg1, pg1)" by (cases "update_ant a (rnd k) food_group pheromone_group obstacle_group")
  have "field_reachable pg1"
    using update_ant_reachable [OF Cons.prems, of a "rnd k" food_group obstacle_group] u by simp
  from Cons.IH [OF this, of "Suc k" fg1] show ?case
    by (simp add: u case_prod_beta)
qed

lemma step_reachable:
  "field_reachable (pheromones s) \<Longrightarrow> field_reachable (pheromones (step rnd s))"
proof -
  assume r: "field_reachable (pheromones s)"
  have "field_reachable
      (snd (snd (ant_group_update rnd 0 (ants s) (foods s) (pheromones s) (obstacles s))))"
    using r by (rule ant_group_update_reachable)
  then show ?thesis
    by (simp add: step_def case_prod_beta field_reachable.decay)
qed

lemma main_setup_reachable: "field_reachable (pheromones (main_setup P ad fd))"
  by (simp add: main_setup_def field_reachable.empty)

text \<open>
  Claim C8. A marker made by a deposit has the strength \<open>PHEROMONE_STRENGTH = 255\<close>. After
  \<open>n\<close> passes of the game loop that follow the deposit, whatever the ants deposit in them,
  the marker is in the group with strength \<open>255 - n\<close> as long as \<open>n < 255\<close>, and is gone from
  the group from pass 255 on. In every group that the simulation reaches, the marker that
  the scan of a worker returns is a member of the group with a positive strength.
\<close>

theorem pheromone_lifecycle:
  "strength (Pheromone px py) = PHEROMONE_STRENGTH \<and> PHEROMONE_STRENGTH = 255 \<and>
   field_run (F @ [Pheromone px py]) dss =
     (pheromone_group_update ^^ length dss) F @
     (if length dss < 255 then [(Pheromone px py)\<lparr>strength := 255 - int (length dss)\<rparr>] else []) @
     field_run [] dss \<and>
   (field_reachable G \<longrightarrow>
      (\<forall>q. first_smelled ax ay G = Some q \<longrightarrow> q \<in> set G \<and> 0 < strength q))"
proof -
  have s: "strength (Pheromone px py) = 255"
    by (simp add: Pheromone_def PHEROMONE_STRENGTH_def)
  have "field_run (F @ [Pheromone px py]) dss =
      (pheromone_group_update ^^ length dss) (F @ [Pheromone px py]) @ field_run [] dss"
    using field_run_append [of "F @ [Pheromone px py]" "[]" dss] by simp
  also have "\<dots> = (pheromone_group_update ^^ length dss) F @
      (pheromone_group_update ^^ length dss) [Pheromone px py] @ field_run [] dss"
    by (simp add: decay_pow_append)
  also have "(pheromone_group_update ^^ length dss) [Pheromone px py] =
      (if length dss < 255 then [(Pheromone px py)\<lparr>strength := 255 - int (length dss)\<rparr>] else [])"
    using decay_pow_single [of "Pheromone px py" "length dss"] s by simp
  finally have run: "field_run (F @ [Pheromone px py]) dss =
      (pheromone_group_update ^^ length dss) F @
      (if length dss < 255 then [(Pheromone px py)\<lparr>strength := 255 - int (length dss)\<rparr>] else []) @
      field_run [] dss" .
  have scan: "field_reachable G \<Longrightarrow> first_smelled ax ay G = Some q \<Longrightarrow>
      q \<in> set G \<and> 0 < strength q" for q
    using first_smelled_in [of ax ay G q] field_reachable_alive [of G q] by blast
  show ?thesis
    using s run scan by (simp add: PHEROMONE_STRENGTH_def)
qed


lemma ex_field_eq: "ex_field = [(Pheromone 410 300)\<lparr>strength := 254\<rparr>]"
  by (simp add: ex_field_def pheromone_update_def Pheromone_def PHEROMONE_STRENGTH_def Let_def)

theorem pheromone_lifecycle_witness:
  "field_reachable ex_field \<and>
   first_smelled 400 300 ex_field = Some ((Pheromone 410 300)\<lparr>strength := 254\<rparr>) \<and>
   0 < strength ((Pheromone 410 300)\<lparr>strength := 254\<rparr>) \<and>
   field_run [Pheromone 410 300] (replicate 254 []) = [(Pheromone 410 300)\<lparr>strength := 1\<rparr>] \<and>
   field_run [Pheromone 410 300] (replicate 255 []) = []"
proof -
  have r: "field_reachable ex_field"
    unfolding ex_field_def
    using field_reachable.decay [OF field_reachable.deposit [OF field_reachable.empty, of 410 300]]
    by simp
  have d: "dist_to 400 300 ((Pheromone 410 300)\<lparr>strength := 254\<rparr>) = 10"
    by (simp add: dist_to_def Pheromone_def get_rect_center_def set_center_def py_int_def
        centerx_def centery_def hypot_zero)
  have f: "first_smelled 400 300 ex_field = Some ((Pheromone 410 300)\<lparr>strength := 254\<rparr>)"
    by (simp add: ex_field_eq d)
  have a: "0 < strength ((Pheromone 410 300)\<lparr>strength := 254\<rparr>)"
    using pheromone_lifecycle [of 410 300 "[]" "[]" ex_field 400 300] r f by blast
  have b: "field_run [Pheromone 410 300] (replicate 254 []) =
      [(Pheromone 410 300)\<lparr>strength := 1\<rparr>]"
    using pheromone_lifecycle [of 410 300 "[]" "replicate 254 []" ex_field 400 300]
    by (simp add: field_run_quiet decay_pow_Nil)
  have c: "field_run [Pheromone 410 300] (replicate 255 []) = []"
    using pheromone_lifecycle [of 410 300 "[]" "replicate 255 []" ex_field 400 300]
    by (simp add: field_run_quiet decay_pow_Nil)
  show ?thesis using r f a b c by simp
qed


section \<open>One pass over the ants\<close>

lemma update_ant_field:
  "snd (snd (update_ant a d food_group pheromone_group obstacle_group)) =
     (case a of
        Worker w \<Rightarrow>
          if state w = STATE_RETURNING_TO_NEST \<and> pheromone_cooldown w \<le> 0
          then pheromone_group @ [Pheromone (x w) (y w)] else pheromone_group
      | Soldier w \<Rightarrow> pheromone_group)"
proof (cases a)
  case (Worker w)
  have "snd (snd (update_ant a d food_group pheromone_group obstacle_group)) =
      snd (snd (worker_update w d food_group pheromone_group obstacle_group))"
    by (simp add: Worker case_prod_beta)
  then show ?thesis by (simp add: Worker worker_update_field)
next
  case (Soldier w)
  then show ?thesis by simp
qed

lemma update_ant_grows:
  "set pheromone_group \<subseteq>
     set (snd (snd (update_ant a d food_group pheromone_group obstacle_group)))"
  using update_ant_field [of a d food_group pheromone_group obstacle_group]
  by (auto split: any_ant.splits if_splits)

lemma length_groups_seen:
  "length (groups_seen rnd k ant_group food_group pheromone_group obstacle_group) =
     length ant_group"
  by (induction ant_group arbitrary: k food_group pheromone_group)
     (simp_all add: case_prod_beta)

lemma groups_seen_grows:
  "j < length ant_group \<Longrightarrow>
   set pheromone_group \<subseteq>
     set (snd (groups_seen rnd k ant_group food_group pheromone_group obstacle_group ! j))"
proof (induction ant_group arbitrary: k food_group pheromone_group j)
  case Nil
  then show ?case by simp
next
  case (Cons a rest)
  show ?case
  proof (cases j)
    case 0
    then show ?thesis by (simp add: case_prod_beta)
  next
    case (Suc j')
    let ?u = "update_ant a (rnd k) food_group pheromone_group obstacle_group"
    have "j' < length rest" using Cons.prems Suc by simp
    then have "set (snd (snd ?u)) \<subseteq>
        set (snd (groups_seen rnd (Suc k) rest (fst (snd ?u)) (snd (snd ?u)) obstacle_group ! j'))"
      by (rule Cons.IH)
    moreover have "set pheromone_group \<subseteq> set (snd (snd ?u))" by (rule update_ant_grows)
    ultimately show ?thesis by (simp add: Suc case_prod_beta)
  qed
qed

lemma deposit_seen_later:
  assumes "i < j" "j < length ant_group" "ant_group ! i = Worker a"
    and "state a = STATE_RETURNING_TO_NEST" "pheromone_cooldown a \<le> 0"
  shows "Pheromone (x a) (y a) \<in>
     set (snd (groups_seen rnd k ant_group food_group pheromone_group obstacle_group ! j))"
  using assms
proof (induction ant_group arbitrary: k food_group pheromone_group i j)
  case Nil
  then show ?case by simp
next
  case (Cons a0 rest)
  let ?u = "update_ant a0 (rnd k) food_group pheromone_group obstacle_group"
  from Cons.prems(1) obtain j' where j: "j = Suc j'" by (cases j) auto
  have jl: "j' < length rest" using Cons.prems(2) j by simp
  show ?case
  proof (cases i)
    case 0
    with Cons.prems(3) have a0: "a0 = Worker a" by simp
    have "Pheromone (x a) (y a) \<in> set (snd (snd ?u))"
      using Cons.prems(4,5) update_ant_field [of a0 "rnd k" food_group pheromone_group obstacle_group]
      by (simp add: a0 del: update_ant.simps)
    moreover have "set (snd (snd ?u)) \<subseteq>
        set (snd (groups_seen rnd (Suc k) rest (fst (snd ?u)) (snd (snd ?u)) obstacle_group ! j'))"
      using jl by (rule groups_seen_grows)
    ultimately show ?thesis by (auto simp: j case_prod_beta)
  next
    case (Suc i')
    have "i' < j'" using Cons.prems(1) Suc j by simp
    moreover have "rest ! i' = Worker a" using Cons.prems(3) Suc by simp
    ultimately have "Pheromone (x a) (y a) \<in>
        set (snd (groups_seen rnd (Suc k) rest (fst (snd ?u)) (snd (snd ?u)) obstacle_group ! j'))"
      using jl Cons.prems(4,5) by (intro Cons.IH) simp_all
    then show ?thesis by (simp add: j case_prod_beta)
  qed
qed

lemma ant_group_update_nth:
  "j < length ant_group \<Longrightarrow>
   fst (ant_group_update rnd k ant_group food_group pheromone_group obstacle_group) ! j =
     fst (update_ant (ant_group ! j) (rnd (k + j))
            (fst (groups_seen rnd k ant_group food_group pheromone_group obstacle_group ! j))
            (snd (groups_seen rnd k ant_group food_group pheromone_group obstacle_group ! j))
            obstacle_group)"
proof (induction ant_group arbitrary: k food_group pheromone_group j)
  case Nil
  then show ?case by simp
next
  case (Cons a rest)
  show ?case
  proof (cases j)
    case 0
    then show ?thesis by (simp add: case_prod_beta)
  next
    case (Suc j')
    let ?u = "update_ant a (rnd k) food_group pheromone_group obstacle_group"
    have "j' < length rest" using Cons.prems Suc by simp
    then have "fst (ant_group_update rnd (Suc k) rest (fst (snd ?u)) (snd (snd ?u))
          obstacle_group) ! j' =
        fst (update_ant (rest ! j') (rnd (Suc k + j'))
          (fst (groups_seen rnd (Suc k) rest (fst (snd ?u)) (snd (snd ?u)) obstacle_group ! j'))
          (snd (groups_seen rnd (Suc k) rest (fst (snd ?u)) (snd (snd ?u)) obstacle_group ! j'))
          obstacle_group)"
      by (rule Cons.IH)
    then show ?thesis by (simp add: Suc case_prod_beta)
  qed
qed

lemma ant_group_update_deposits:
  "\<exists>ds. snd (snd (ant_group_update rnd k ant_group food_group pheromone_group obstacle_group)) =
          pheromone_group @ ds \<and>
        (\<forall>p\<in>set ds. \<exists>px py. p = Pheromone px py)"
proof (induction ant_group arbitrary: k food_group pheromone_group)
  case Nil
  then show ?case by simp
next
  case (Cons a rest)
  let ?u = "update_ant a (rnd k) food_group pheromone_group obstacle_group"
  obtain d1 where d1: "snd (snd ?u) = pheromone_group @ d1" "\<forall>p\<in>set d1. \<exists>px py. p = Pheromone px py"
    using update_ant_field [of a "rnd k" food_group pheromone_group obstacle_group]
    by (cases a) (auto simp del: update_ant.simps split: if_splits)
  obtain d2 where d2:
    "snd (snd (ant_group_update rnd (Suc k) rest (fst (snd ?u)) (snd (snd ?u)) obstacle_group)) =
       snd (snd ?u) @ d2" "\<forall>p\<in>set d2. \<exists>px py. p = Pheromone px py"
    using Cons.IH [of "Suc k" "fst (snd ?u)" "snd (snd ?u)"] by blast
  have "snd (snd (ant_group_update rnd k (a # rest) food_group pheromone_group obstacle_group)) =
      pheromone_group @ (d1 @ d2)"
    using d1(1) d2(1) by (simp add: case_prod_beta)
  moreover have "\<forall>p\<in>set (d1 @ d2). \<exists>px py. p = Pheromone px py"
    using d1(2) d2(2) by auto
  ultimately show ?case by blast
qed

lemma step_field_run:
  "\<exists>ds. (\<forall>p\<in>set ds. \<exists>px py. p = Pheromone px py) \<and>
        pheromones (step rnd s) = field_run (pheromones s) [ds]"
  using ant_group_update_deposits [of rnd 0 "ants s" "foods s" "pheromones s" "obstacles s"]
  by (auto simp: step_def case_prod_beta)

text \<open>
  Claim C9. The ants of a step are updated in the order of the ant group, the ant at
  position \<open>j\<close> on the groups that the ants before it have left (\<open>groups_seen\<close>). When a worker
  at an earlier position \<open>i\<close> deposits in this step (it is returning and its cooldown is not
  positive), the marker it deposits, at full strength, is in the pheromone group on which
  the ant at every later position \<open>j\<close> is updated, and so in the group that a seeking worker
  there scans. The pheromone group is updated once, after the pass over the ants.
\<close>

theorem same_tick_visibility:
  assumes "i < j" and "j < length (ants s)"
    and "ants s ! i = Worker a"
    and "state a = STATE_RETURNING_TO_NEST" and "pheromone_cooldown a \<le> 0"
  shows
    "Pheromone (x a) (y a) \<in>
       set (snd (groups_seen rnd 0 (ants s) (foods s) (pheromones s) (obstacles s) ! j)) \<and>
     ants (step rnd s) ! j =
       fst (update_ant (ants s ! j) (rnd j)
              (fst (groups_seen rnd 0 (ants s) (foods s) (pheromones s) (obstacles s) ! j))
              (snd (groups_seen rnd 0 (ants s) (foods s) (pheromones s) (obstacles s) ! j))
              (obstacles s)) \<and>
     pheromones (step rnd s) =
       pheromone_group_update
         (snd (snd (ant_group_update rnd 0 (ants s) (foods s) (pheromones s) (obstacles s))))"
proof -
  have 1: "Pheromone (x a) (y a) \<in>
      set (snd (groups_seen rnd 0 (ants s) (foods s) (pheromones s) (obstacles s) ! j))"
    using assms by (rule deposit_seen_later)
  have 2: "ants (step rnd s) ! j =
      fst (update_ant (ants s ! j) (rnd j)
             (fst (groups_seen rnd 0 (ants s) (foods s) (pheromones s) (obstacles s) ! j))
             (snd (groups_seen rnd 0 (ants s) (foods s) (pheromones s) (obstacles s) ! j))
             (obstacles s))"
    using ant_group_update_nth [OF assms(2), of rnd 0 "foods s" "pheromones s" "obstacles s"]
    by (simp add: step_def case_prod_beta)
  have 3: "pheromones (step rnd s) =
      pheromone_group_update
        (snd (snd (ant_group_update rnd 0 (ants s) (foods s) (pheromones s) (obstacles s))))"
    by (simp add: step_def case_prod_beta)
  show ?thesis using 1 2 3 by blast
qed


lemma worker_update_foods_returning:
  "state a = STATE_RETURNING_TO_NEST \<Longrightarrow>
   fst (snd (worker_update a d food_group pheromone_group obstacle_group)) = food_group"
  by (simp add: worker_update_def worker_decide_def Let_def case_prod_beta
      STATE_RETURNING_TO_NEST_def STATE_SEEKING_FOOD_def)

lemma ex_sim_seen:
  "groups_seen (\<lambda>k. ex_draws) 0 (ants ex_sim) (foods ex_sim) (pheromones ex_sim)
     (obstacles ex_sim) ! 1 = ([], [Pheromone 410 300])"
proof -
  let ?u = "worker_update ex_home_worker2 ex_draws [] [] main_obstacles"
  have "fst (snd ?u) = []"
    by (rule worker_update_foods_returning) (rule ex_home_worker2_facts)
  moreover have "snd (snd ?u) = [Pheromone 410 300]"
    by (simp add: worker_update_field ex_home_worker2_facts)
       (simp add: ex_home_worker2_def)
  ultimately show ?thesis
    by (simp add: ex_sim_def case_prod_beta)
qed

theorem same_tick_visibility_witness:
  "(0::nat) < 1 \<and> 1 < length (ants ex_sim) \<and>
   ants ex_sim ! 0 = Worker ex_home_worker2 \<and>
   state ex_home_worker2 = STATE_RETURNING_TO_NEST \<and>
   pheromone_cooldown ex_home_worker2 \<le> 0 \<and>
   Pheromone (x ex_home_worker2) (y ex_home_worker2) \<in>
     set (snd (groups_seen (\<lambda>k. ex_draws) 0 (ants ex_sim) (foods ex_sim) (pheromones ex_sim)
       (obstacles ex_sim) ! 1)) \<and>
   worker_target ex_seeker [] [Pheromone 410 300] = Some (410, 300) \<and>
   ants (step (\<lambda>k. ex_draws) ex_sim) ! 1 =
     fst (update_ant (Worker ex_seeker) ex_draws [] [Pheromone 410 300] main_obstacles)"
proof -
  have h: "(0::nat) < 1" "1 < length (ants ex_sim)" "ants ex_sim ! 0 = Worker ex_home_worker2"
    "state ex_home_worker2 = STATE_RETURNING_TO_NEST" "pheromone_cooldown ex_home_worker2 \<le> 0"
    by (simp_all add: ex_sim_def ex_home_worker2_facts) (simp add: ex_home_worker2_def)
  note v = same_tick_visibility [OF h, of "\<lambda>k. ex_draws"]
  have d: "dist_to 400 300 (Pheromone 410 300) = 10"
    "center (rect (Pheromone 410 300)) = (410, 300)"
    by (simp_all add: dist_to_def Pheromone_def get_rect_center_def set_center_def py_int_def
        centerx_def centery_def center_def hypot_zero)
  have t: "worker_target ex_seeker [] [Pheromone 410 300] = Some (410, 300)"
    by (simp add: seeking_decide ex_seeker_facts seek_target_def d)
  have a: "ants (step (\<lambda>k. ex_draws) ex_sim) ! 1 =
      fst (update_ant (Worker ex_seeker) ex_draws [] [Pheromone 410 300] main_obstacles)"
    using v by (simp only: ex_sim_seen fst_conv snd_conv) (simp add: ex_sim_def)
  show ?thesis
    using h v t a by simp
qed



section \<open>The cooldown of a worker\<close>

lemma worker_decided_cooldown:
  "pheromone_cooldown (worker_decided a food_group pheromone_group) =
     (if state a = STATE_RETURNING_TO_NEST
      then (if pheromone_cooldown a \<le> 0 then PHEROMONE_DROP_RATE else pheromone_cooldown a - 1)
      else pheromone_cooldown a)"
  by (simp add: worker_decided_def worker_decide_def drop_pheromone_def Let_def
      STATE_RETURNING_TO_NEST_def STATE_SEEKING_FOOD_def)

lemma worker_update_cooldown:
  "pheromone_cooldown (fst (worker_update a d food_group pheromone_group obstacle_group)) =
     (if state a = STATE_RETURNING_TO_NEST
      then (if pheromone_cooldown a \<le> 0 then PHEROMONE_DROP_RATE else pheromone_cooldown a - 1)
      else pheromone_cooldown a)"
  by (simp only: worker_update_move move_cooldown worker_pre_move_def steer_or_wander_more
      worker_decided_cooldown)

lemma cooldown_kept:
  assumes "0 \<le> pheromone_cooldown a" "pheromone_cooldown a \<le> PHEROMONE_DROP_RATE"
  shows "0 \<le> pheromone_cooldown (fst (worker_update a d food_group pheromone_group obstacle_group)) \<and>
         pheromone_cooldown (fst (worker_update a d food_group pheromone_group obstacle_group))
           \<le> PHEROMONE_DROP_RATE"
  using assms by (simp add: worker_update_cooldown PHEROMONE_DROP_RATE_def)

lemma worker_ticks_cooldown:
  "0 \<le> pheromone_cooldown a \<Longrightarrow> pheromone_cooldown a \<le> PHEROMONE_DROP_RATE \<Longrightarrow>
   0 \<le> pheromone_cooldown (worker_ticks a envs) \<and>
   pheromone_cooldown (worker_ticks a envs) \<le> PHEROMONE_DROP_RATE"
proof (induction a envs rule: worker_ticks.induct)
  case (1 a)
  then show ?case by simp
next
  case (2 a d food_group pheromone_group obstacle_group rest)
  have "0 \<le> pheromone_cooldown (fst (worker_update a d food_group pheromone_group obstacle_group)) \<and>
      pheromone_cooldown (fst (worker_update a d food_group pheromone_group obstacle_group))
        \<le> PHEROMONE_DROP_RATE"
    using "2.prems" by (rule cooldown_kept)
  then show ?case using "2.IH" by simp
qed

text \<open>
  Claim C10. The cooldown of a worker is an integer that starts at 0 and lies in
  \<open>[0, PHEROMONE_DROP_RATE]\<close> after any number of updates. An update in which the worker is
  returning with a cooldown \<open>\<le> 0\<close> deposits a marker and sets the cooldown to
  \<open>PHEROMONE_DROP_RATE\<close>; one in which it is returning with a positive cooldown lowers the
  cooldown by 1 and deposits nothing; an update in any other state, seeking food among
  them, leaves the cooldown as it is and deposits nothing.
\<close>

theorem cooldown_invariant:
  "0 \<le> pheromone_cooldown (worker_ticks (WorkerAnt ix iy nest u) envs) \<and>
   pheromone_cooldown (worker_ticks (WorkerAnt ix iy nest u) envs) \<le> PHEROMONE_DROP_RATE \<and>
   (state a = STATE_RETURNING_TO_NEST \<and> pheromone_cooldown a \<le> 0 \<longrightarrow>
      pheromone_cooldown (fst (worker_update a d food_group pheromone_group obstacle_group)) =
        PHEROMONE_DROP_RATE \<and>
      snd (snd (worker_update a d food_group pheromone_group obstacle_group)) =
        pheromone_group @ [Pheromone (x a) (y a)]) \<and>
   (state a = STATE_RETURNING_TO_NEST \<and> 0 < pheromone_cooldown a \<longrightarrow>
      pheromone_cooldown (fst (worker_update a d food_group pheromone_group obstacle_group)) =
        pheromone_cooldown a - 1 \<and>
      snd (snd (worker_update a d food_group pheromone_group obstacle_group)) = pheromone_group) \<and>
   (state a \<noteq> STATE_RETURNING_TO_NEST \<longrightarrow>
      pheromone_cooldown (fst (worker_update a d food_group pheromone_group obstacle_group)) =
        pheromone_cooldown a \<and>
      snd (snd (worker_update a d food_group pheromone_group obstacle_group)) = pheromone_group)"
proof -
  have "pheromone_cooldown (WorkerAnt ix iy nest u) = 0"
    by (simp add: WorkerAnt_def)
  then have "0 \<le> pheromone_cooldown (worker_ticks (WorkerAnt ix iy nest u) envs) \<and>
      pheromone_cooldown (worker_ticks (WorkerAnt ix iy nest u) envs) \<le> PHEROMONE_DROP_RATE"
    by (intro worker_ticks_cooldown) (simp_all add: PHEROMONE_DROP_RATE_def)
  then show ?thesis
    by (simp add: worker_update_cooldown worker_update_field)
qed

theorem cooldown_invariant_witness:
  "state ex_home_worker2 = STATE_RETURNING_TO_NEST \<and> pheromone_cooldown ex_home_worker2 \<le> 0 \<and>
   pheromone_cooldown (fst (worker_update ex_home_worker2 ex_draws [] [] main_obstacles)) = 10 \<and>
   state ex_home_worker = STATE_RETURNING_TO_NEST \<and> 0 < pheromone_cooldown ex_home_worker \<and>
   pheromone_cooldown (fst (worker_update ex_home_worker ex_draws [] [] main_obstacles)) = 2 \<and>
   state ex_seeker \<noteq> STATE_RETURNING_TO_NEST \<and>
   pheromone_cooldown (fst (worker_update ex_seeker ex_draws [ex_food] ex_trail main_obstacles)) = 0"
proof -
  have h2: "state ex_home_worker2 = STATE_RETURNING_TO_NEST \<and> pheromone_cooldown ex_home_worker2 \<le> 0"
    by (simp add: ex_home_worker2_def)
  have h1: "state ex_home_worker = STATE_RETURNING_TO_NEST \<and> 0 < pheromone_cooldown ex_home_worker"
    by (simp add: ex_home_worker_def)
  have h0: "state ex_seeker \<noteq> STATE_RETURNING_TO_NEST"
    by (simp add: ex_seeker_facts STATE_SEEKING_FOOD_def STATE_RETURNING_TO_NEST_def)
  have c: "pheromone_cooldown ex_home_worker = 3" "pheromone_cooldown ex_seeker = 0"
    by (simp_all add: ex_home_worker_def ex_seeker_def WorkerAnt_def)
  show ?thesis
    using h0 h1 h2 c
      cooldown_invariant [of 0 0 main_nest_rect 0 "[]" ex_home_worker2 ex_draws "[]" "[]" main_obstacles]
      cooldown_invariant [of 0 0 main_nest_rect 0 "[]" ex_home_worker ex_draws "[]" "[]" main_obstacles]
      cooldown_invariant [of 0 0 main_nest_rect 0 "[]" ex_seeker ex_draws "[ex_food]" ex_trail main_obstacles]
    by (simp add: PHEROMONE_DROP_RATE_def)
qed

section \<open>The set-up\<close>

lemma main_setup_source:
  "length (ants (main_setup source_params ad fd)) = 40 \<and>
   length (foods (main_setup source_params ad fd)) = 12"
  by (simp add: main_setup_def source_params_def TOTAL_ANTS_def FOOD_PILES_def)

lemma make_ant_all_workers:
  "1 \<le> worker_ratio P \<Longrightarrow> role_u d < 1 \<Longrightarrow> \<exists>w. make_ant P d = Worker w"
  by (simp add: make_ant_def Let_def)

lemma make_ant_all_soldiers:
  "worker_ratio P \<le> 0 \<Longrightarrow> 0 \<le> role_u d \<Longrightarrow> \<exists>w. make_ant P d = Soldier w"
  by (simp add: make_ant_def Let_def)

text \<open>
  Claim C3, as stated, fails: the set-up of \<open>main\<close> checks nothing. With a worker ratio of
  \<open>3/2\<close>, a food pile count of \<open>- 1\<close> and an amount per pile of \<open>- 5\<close> it returns a simulation:
  two workers and no food.
\<close>

theorem setup_validation_counterexample:
  "\<not> (0 \<le> worker_ratio ex_bad_params \<and> worker_ratio ex_bad_params \<le> 1) \<and>
   food_piles ex_bad_params < 0 \<and> food_amount_per_pile ex_bad_params < 0 \<and>
   main_setup ex_bad_params ex_ant_draws ex_food_draws =
     \<lparr>ants = [Worker (WorkerAnt 400 300 main_nest_rect 0),
              Worker (WorkerAnt 400 300 main_nest_rect 0)],
      foods = [], pheromones = [], obstacles = main_obstacles\<rparr>"
proof -
  have "[0..<nat 2] = [0, 1]" by (simp add: upt_rec)
  then show ?thesis
    by (simp add: ex_bad_params_def main_setup_def make_ant_def ex_ant_draws_def Let_def
        main_nest_rect_def centerx_def centery_def SCREEN_WIDTH_def SCREEN_HEIGHT_def)
qed

text \<open>
  Claim C3, amended. The set-up succeeds for every value of the constants: it makes as
  many ants as the total count says, none when the count is negative, and likewise for
  the food piles; every pile gets the amount per pile as it is; there is no pheromone,
  and the obstacles are the four of \<open>main\<close>. With role draws in \<open>[0, 1)\<close>, a worker ratio
  \<open>\<ge> 1\<close> makes every ant a worker and a worker ratio \<open>\<le> 0\<close> makes every ant a soldier.
\<close>

theorem setup_without_validation:
  "length (ants (main_setup P ad fd)) = nat (total_ants P) \<and>
   length (foods (main_setup P ad fd)) = nat (food_piles P) \<and>
   (\<forall>f\<in>set (foods (main_setup P ad fd)). amount f = food_amount_per_pile P) \<and>
   pheromones (main_setup P ad fd) = [] \<and>
   obstacles (main_setup P ad fd) = main_obstacles \<and>
   ((\<forall>i. 0 \<le> role_u (ad i) \<and> role_u (ad i) < 1) \<longrightarrow>
      (1 \<le> worker_ratio P \<longrightarrow> (\<forall>a\<in>set (ants (main_setup P ad fd)). \<exists>w. a = Worker w)) \<and>
      (worker_ratio P \<le> 0 \<longrightarrow> (\<forall>a\<in>set (ants (main_setup P ad fd)). \<exists>w. a = Soldier w)))"
proof -
  have 1: "length (ants (main_setup P ad fd)) = nat (total_ants P)"
    "length (foods (main_setup P ad fd)) = nat (food_piles P)"
    "pheromones (main_setup P ad fd) = []"
    "obstacles (main_setup P ad fd) = main_obstacles"
    by (simp_all add: main_setup_def)
  have 2: "\<forall>f\<in>set (foods (main_setup P ad fd)). amount f = food_amount_per_pile P"
    by (auto simp: main_setup_def Food_def)
  have 3: "\<forall>a\<in>set (ants (main_setup P ad fd)). \<exists>w. a = Worker w"
    if "\<forall>i. 0 \<le> role_u (ad i) \<and> role_u (ad i) < 1" "1 \<le> worker_ratio P"
    using that make_ant_all_workers [of P] by (auto simp: main_setup_def)
  have 4: "\<forall>a\<in>set (ants (main_setup P ad fd)). \<exists>w. a = Soldier w"
    if "\<forall>i. 0 \<le> role_u (ad i) \<and> role_u (ad i) < 1" "worker_ratio P \<le> 0"
    using that make_ant_all_soldiers [of P] by (auto simp: main_setup_def)
  show ?thesis using 1 2 3 4 by blast
qed

theorem setup_without_validation_witness:
  "0 \<le> role_u (ex_ant_draws 0) \<and> role_u (ex_ant_draws 0) < 1 \<and>
   1 \<le> worker_ratio ex_bad_params \<and>
   length (ants (main_setup ex_bad_params ex_ant_draws ex_food_draws)) = 2 \<and>
   hd (ants (main_setup ex_bad_params ex_ant_draws ex_food_draws)) =
     Worker (WorkerAnt 400 300 main_nest_rect 0) \<and>
   length (foods (main_setup ex_bad_params ex_ant_draws ex_food_draws)) = 0"
proof -
  have u: "[0..<nat 2] = [0, 1]" by (simp add: upt_rec)
  have r: "\<forall>i. 0 \<le> role_u (ex_ant_draws i) \<and> role_u (ex_ant_draws i) < 1"
    by (simp add: ex_ant_draws_def)
  have w: "1 \<le> worker_ratio ex_bad_params" by (simp add: ex_bad_params_def)
  have "hd (ants (main_setup ex_bad_params ex_ant_draws ex_food_draws)) =
      Worker (WorkerAnt 400 300 main_nest_rect 0)"
    using u
    by (simp add: ex_bad_params_def main_setup_def make_ant_def ex_ant_draws_def Let_def
        main_nest_rect_def centerx_def centery_def SCREEN_WIDTH_def SCREEN_HEIGHT_def)
  then show ?thesis
    using r w setup_without_validation [of ex_bad_params ex_ant_draws ex_food_draws]
    by (simp add: ex_bad_params_def)
qed

end
